theory Spec2Isabelle
  imports Main "HOL-Library.Multiset"
begin

section \<open>Python values\<close>

text \<open>
  A Python \<open>str\<close> is modelled by the bytes of its UTF-8 encoding, a Python \<open>int\<close> by
  \<open>int\<close>. An exception is a value of \<open>error\<close>. A generator is modelled by what running
  it to exhaustion does, in order: the lines it writes to the import file, the items it
  yields, and the exception that ends it, if any.
\<close>

datatype error = SyntaxError | IndexError | AttributeError | KeyError

datatype 'a event = Write string | Yield 'a

type_synonym 'a generator = "'a event list \<times> error option"

fun yields :: "'a event list \<Rightarrow> 'a list" where
  "yields [] = []"
| "yields (Yield x # es) = x # yields es"
| "yields (Write w # es) = yields es"

fun writes :: "'a event list \<Rightarrow> string list" where
  "writes [] = []"
| "writes (Yield x # es) = writes es"
| "writes (Write w # es) = w # writes es"

text \<open>\<open>for x in xs: body\<close> inside a generator: the bodies run in order until one raises.\<close>

fun for_each :: "('a \<Rightarrow> 'b generator) \<Rightarrow> 'a list \<Rightarrow> 'b generator" where
  "for_each f [] = ([], None)"
| "for_each f (x # xs) =
     (case f x of
        (es, Some e) \<Rightarrow> (es, Some e)
      | (es, None) \<Rightarrow> (case for_each f xs of (es', r) \<Rightarrow> (es @ es', r)))"

subsection \<open>Strings and lists\<close>

text \<open>\<open>str(n)\<close> for an integer: decimal digits, with a minus sign when negative.\<close>

fun str_nat :: "nat \<Rightarrow> string" where
  "str_nat n =
     (if n < 10 then [char_of (48 + n)]
      else str_nat (n div 10) @ [char_of (48 + n mod 10)])"

definition str_int :: "int \<Rightarrow> string" where
  "str_int i = (if i < 0 then CHR ''-'' # str_nat (nat (- i)) else str_nat (nat i))"

text \<open>\<open>sep.join(xs)\<close>.\<close>

fun join :: "string \<Rightarrow> string list \<Rightarrow> string" where
  "join sep [] = []"
| "join sep [x] = x"
| "join sep (x # y # ys) = x @ sep @ join sep (y # ys)"

text \<open>
  \<open>str.splitlines()\<close>. \<open>linebreak s\<close> is the length in bytes of the line boundary that
  \<open>s\<close> starts with, or 0: CR LF, LF, CR, VT, FF, FS, GS, RS, and NEL (U+0085), LS
  (U+2028) and PS (U+2029) in their UTF-8 encodings. A boundary ends a line, so a string
  that ends with one has no empty last line.
\<close>

definition linebreak :: "string \<Rightarrow> nat" where
  "linebreak s =
     (if take 2 s = [CHR 0x0D, CHR 0x0A] then 2
      else if take 1 s \<in> set [[CHR 0x0A], [CHR 0x0D], [CHR 0x0B], [CHR 0x0C],
                                 [CHR 0x1C], [CHR 0x1D], [CHR 0x1E]] then 1
      else if take 2 s = [CHR 0xC2, CHR 0x85] then 2
      else if take 3 s \<in> set [[CHR 0xE2, CHR 0x80, CHR 0xA8],
                                 [CHR 0xE2, CHR 0x80, CHR 0xA9]] then 3
      else 0)"

fun splitlines_from :: "string \<Rightarrow> string \<Rightarrow> string list" where
  "splitlines_from cur [] = (if cur = [] then [] else [cur])"
| "splitlines_from cur (c # cs) =
     (case linebreak (c # cs) of
        0 \<Rightarrow> splitlines_from (cur @ [c]) cs
      | Suc k \<Rightarrow> cur # splitlines_from [] (drop k cs))"

definition splitlines :: "string \<Rightarrow> string list" where
  "splitlines s = splitlines_from [] s"

text \<open>
  The slice \<open>xs[i:j]\<close>: a negative bound counts from the end, and both bounds are
  clamped to the list, so a slice never raises.
\<close>

definition slice_bound :: "nat \<Rightarrow> int \<Rightarrow> nat" where
  "slice_bound n k = (if k < 0 then nat (max (k + int n) 0) else min (nat k) n)"

definition py_slice :: "'a list \<Rightarrow> int \<Rightarrow> int \<Rightarrow> 'a list" where
  "py_slice xs i j =
     (let a = slice_bound (length xs) i; b = slice_bound (length xs) j
      in take (b - a) (drop a xs))"

section \<open>The syntax tree\<close>

text \<open>
  The nodes of Python's \<open>ast\<close> module, as far as the tool reads them. A node keeps its
  child nodes in the order of \<open>ast.iter_child_nodes\<close>; the expressions below a
  statement (decorators, arguments, base classes, conditions) and the \<open>alias\<close> nodes
  of an import are left out: no statement lies below them, so they yield no record and
  change no order. \<open>Other\<close> stands for every other node that statements can lie below
  (\<open>if\<close>, \<open>for\<close>, \<open>with\<close>, \<open>try\<close> and its handlers, ...) and for every other
  statement (\<open>pass\<close>, an assignment, ...).

  \<open>lineno\<close> is the line on which the statement begins, counted from 1, as \<open>ast.parse\<close>
  reports it from Python 3.8 on; a \<open>Module\<close> has no such attribute. The value of an
  expression statement is a string constant (\<open>ast.Str\<close>) or anything else.
\<close>

datatype expr = Str string | NotStr

datatype node =
    Module "node list"
  | ClassDef string int "node list"
  | FunctionDef string int "node list"
  | AsyncFunctionDef string int "node list"
  | ImportFrom "string option" int
  | Import "string list" int
  | Expr expr int
  | Other int "node list"

datatype node_type =
    Module_t | ClassDef_t | FunctionDef_t | AsyncFunctionDef_t
  | ImportFrom_t | Import_t | Expr_t | Other_t

fun type_of :: "node \<Rightarrow> node_type" where
  "type_of (Module b) = Module_t"
| "type_of (ClassDef n l b) = ClassDef_t"
| "type_of (FunctionDef n l b) = FunctionDef_t"
| "type_of (AsyncFunctionDef n l b) = AsyncFunctionDef_t"
| "type_of (ImportFrom m l) = ImportFrom_t"
| "type_of (Import ns l) = Import_t"
| "type_of (Expr v l) = Expr_t"
| "type_of (Other l b) = Other_t"

text \<open>\<open>getattr(node, 'name', None)\<close>, \<open>getattr(node, 'lineno', None)\<close> and the body.\<close>

fun name :: "node \<Rightarrow> string option" where
  "name (ClassDef n l b) = Some n"
| "name (FunctionDef n l b) = Some n"
| "name (AsyncFunctionDef n l b) = Some n"
| "name _ = None"

fun lineno :: "node \<Rightarrow> int option" where
  "lineno (Module b) = None"
| "lineno (ClassDef n l b) = Some l"
| "lineno (FunctionDef n l b) = Some l"
| "lineno (AsyncFunctionDef n l b) = Some l"
| "lineno (ImportFrom m l) = Some l"
| "lineno (Import ns l) = Some l"
| "lineno (Expr v l) = Some l"
| "lineno (Other l b) = Some l"

fun body :: "node \<Rightarrow> node list" where
  "body (Module b) = b"
| "body (ClassDef n l b) = b"
| "body (FunctionDef n l b) = b"
| "body (AsyncFunctionDef n l b) = b"
| "body (Other l b) = b"
| "body _ = []"

text \<open>
  \<open>ast.walk\<close>: breadth first, from a queue that starts with the root; each node taken
  from the front has its children appended at the back.
\<close>

function walk_todo :: "node list \<Rightarrow> node list" where
  "walk_todo [] = []"
| "walk_todo (n # todo) = n # walk_todo (todo @ body n)"
  by pat_completeness auto
termination
proof (relation "measure (size_list size)")
  show "wf (measure (size_list (size :: node \<Rightarrow> nat)))"
    by simp
next
  fix n :: node and todo :: "node list"
  have "size_list size (body n) < Suc (size n)"
    by (cases n) simp_all
  then show "(todo @ body n, n # todo) \<in> measure (size_list size)"
    by simp
qed

definition walk :: "node \<Rightarrow> node list" where
  "walk tree = walk_todo [tree]"

section \<open>The library\<close>

text \<open>
  The functions of the standard library that the tool calls and whose code is not part
  of it: \<open>ast.parse\<close> (\<open>None\<close> when it raises \<open>SyntaxError\<close>), \<open>inspect.cleandoc\<close>
  (called by \<open>ast.get_docstring\<close>), \<open>textwrap.dedent\<close>, \<open>os.path.basename\<close> and
  \<open>os.path.splitext\<close>. Every definition below takes them as the parameter \<open>L\<close>.
\<close>

record pylib =
  ast_parse :: "string \<Rightarrow> node option"
  cleandoc :: "string \<Rightarrow> string"
  dedent :: "string \<Rightarrow> string"
  basename :: "string \<Rightarrow> string"
  splitext :: "string \<Rightarrow> string \<times> string"

text \<open>
  \<open>ast.get_docstring(node, clean=True)\<close>: the cleaned text of the string constant
  that is the first statement of the body, \<open>None\<close> when there is none.
\<close>

fun get_docstring :: "pylib \<Rightarrow> node \<Rightarrow> string option" where
  "get_docstring L node =
     (case body node of
        Expr (Str text) l # rest \<Rightarrow> Some (cleandoc L text)
      | _ \<Rightarrow> None)"

section \<open>The tables of node types\<close>

definition FUNCTION_TYPES :: "(node_type \<times> string) list" where
  "FUNCTION_TYPES =
     [(FunctionDef_t, ''\<newline>### Function''),
      (AsyncFunctionDef_t, ''\<newline>### Async Function'')]"

definition DECLARE_TYPES :: "(node_type \<times> string) list" where
  "DECLARE_TYPES =
     FUNCTION_TYPES @ [(ClassDef_t, ''\<newline>## Class''), (Module_t, ''# Module'')]"

definition NODE_TYPES :: "(node_type \<times> string) list" where
  "NODE_TYPES =
     DECLARE_TYPES @ [(ImportFrom_t, ''\<newline>Imports''), (Import_t, ''\<newline>Imports'')]"

text \<open>\<open>isinstance(n, tuple(table))\<close>: the type of \<open>n\<close> is a key of the table.\<close>

definition isinstance :: "node \<Rightarrow> (node_type \<times> string) list \<Rightarrow> bool" where
  "isinstance n table = (type_of n \<in> set (map fst table))"

section \<open>The extractor of \<open>docs2md/docs2md.py\<close>\<close>

text \<open>
  A record is the tuple \<open>(node, name, lineno, docstring)\<close>. The import file is the
  list of the strings written to it, \<open>None\<close> when the caller passes none; a file
  object is truthy, so \<open>if file_to_save:\<close> tests that one was passed.
\<close>

type_synonym docrec = "node \<times> string option \<times> int \<times> string"

type_synonym sink = "string list"

text \<open>\<open>get_imports\<close>: the line written starts with U+251C, in UTF-8.\<close>

fun get_imports :: "node \<Rightarrow> sink option \<Rightarrow> docrec event list" where
  "get_imports (ImportFrom m l) file_to_save =
     (let imports = (case m of None \<Rightarrow> ''?'' | Some s \<Rightarrow> if s = [] then ''?'' else s);
          res = (ImportFrom m l, Some imports, 0, [])
      in (if file_to_save \<noteq> None
          then [Write ([CHR 0xE2, CHR 0x94, CHR 0x9C] @ imports @ ''\<newline>'')] else [])
         @ [Yield res])"
| "get_imports (Import names l) file_to_save =
     (let imports = join '','' names;
          res = (Import names l, Some imports, 0, [])
      in (if file_to_save \<noteq> None
          then [Write ([CHR 0xE2, CHR 0x94, CHR 0x9C] @ imports @ ''\<newline>'')] else [])
         @ [Yield res])"
| "get_imports node file_to_save = []"

text \<open>
  The body of \<open>if isinstance(n, tuple(_DECLARE_TYPES))\<close> in \<open>parse_docstrings\<close>,
  up to its \<open>yield\<close>: the record of a module, class or function, or the exception
  raised on the way (\<open>node.body[0]\<close> of an empty body, \<open>lineno\<close> of a node that
  has none).
\<close>

definition declare_record :: "pylib \<Rightarrow> string list \<Rightarrow> node \<Rightarrow> error + docrec" where
  "declare_record L source_lines node =
     (let docstring = (case get_docstring L node of
                         None \<Rightarrow> ''**UNDOCUMENTED**''
                       | Some d \<Rightarrow> if d = [] then ''**UNDOCUMENTED**'' else d);
          lineno0 = (case lineno node of None \<Rightarrow> 0 | Some l \<Rightarrow> l)
      in if isinstance node FUNCTION_TYPES then
           (case body node of
              [] \<Rightarrow> Inl IndexError
            | b # rest \<Rightarrow>
                (case lineno b of
                   None \<Rightarrow> Inl AttributeError
                 | Some lineno1 \<Rightarrow>
                     (case lineno node of
                        None \<Rightarrow> Inl AttributeError
                      | Some node_lineno \<Rightarrow>
                          (let function_declaration =
                                 (if node_lineno = lineno1
                                  then py_slice source_lines (lineno1 - 1) lineno1
                                  else py_slice source_lines (node_lineno - 1) (lineno1 - 1));
                               function = dedent L (join ''\<newline>'' function_declaration)
                           in Inr (node, name node, lineno1,
                                   ''```python\<newline>'' @ function @ ''\<newline>```\<newline>''
                                   @ docstring)))))
         else Inr (node, name node, lineno0, docstring))"

text \<open>The body of \<open>for n in ast.walk(tree)\<close>.\<close>

definition parse_node :: "pylib \<Rightarrow> string list \<Rightarrow> sink option \<Rightarrow> node \<Rightarrow> docrec generator" where
  "parse_node L source_lines import_file n =
     (if isinstance n DECLARE_TYPES then
        (case declare_record L source_lines n of
           Inl e \<Rightarrow> ([], Some e)
         | Inr r \<Rightarrow> (Yield r # get_imports n import_file, None))
      else (get_imports n import_file, None))"

definition parse_docstrings :: "pylib \<Rightarrow> string \<Rightarrow> sink option \<Rightarrow> docrec generator" where
  "parse_docstrings L source import_file =
     (case ast_parse L source of
        None \<Rightarrow> ([], Some SyntaxError)
      | Some tree \<Rightarrow>
          for_each (parse_node L (splitlines source) import_file) (walk tree))"

section \<open>The renderer of \<open>docs2md/docs2md.py\<close>\<close>

text \<open>
  \<open>itertools.groupby\<close> computes the key of an item when it reaches the item, and
  \<open>_NODE_TYPES[type(tpl[0])]\<close> raises \<open>KeyError\<close> for a node type that is not in
  the table. \<open>keyed\<close> pairs every record with its key, up to the first record whose key
  raises; \<open>groupby\<close> then cuts the keyed records into the runs of equal keys.
\<close>

fun keyed :: "docrec list \<Rightarrow> (string \<times> docrec) list \<times> error option" where
  "keyed [] = ([], None)"
| "keyed (tpl # tpls) =
     (case map_of NODE_TYPES (type_of (fst tpl)) of
        None \<Rightarrow> ([], Some KeyError)
      | Some k \<Rightarrow> (case keyed tpls of (ks, e) \<Rightarrow> ((k, tpl) # ks, e)))"

function groupby :: "('k \<times> 'a) list \<Rightarrow> ('k \<times> 'a list) list" where
  "groupby [] = []"
| "groupby ((k, x) # kxs) =
     (k, x # map snd (takeWhile (\<lambda>kx. fst kx = k) kxs))
     # groupby (dropWhile (\<lambda>kx. fst kx = k) kxs)"
  by pat_completeness auto
termination
  by (relation "measure length") (auto simp: length_dropWhile_le less_Suc_eq_le)

text \<open>
  The body of the inner loop of \<open>yield_docstrings\<close> for one record: the chunks it
  yields and the value of \<open>first_import\<close> after it.
\<close>

definition render_record :: "string \<Rightarrow> string \<Rightarrow> bool \<Rightarrow> docrec \<Rightarrow> string list \<times> bool" where
  "render_record ty module first_import tpl =
     (case tpl of (node, name0, lineno0, docstring) \<Rightarrow>
        (let name1 = (case name0 of None \<Rightarrow> module
                      | Some s \<Rightarrow> if s = [] then module else s);
             last_chunk = (if docstring @ ''\<newline>'' = [] then ''\<newline>''
                           else docstring @ ''\<newline>'')
         in if ty = the (map_of NODE_TYPES Module_t) then
              ([ty @ '' '' @ [CHR 0x27] @ name1 @ [CHR 0x27] @ ''\<newline>'', last_chunk],
               first_import)
            else if ty \<in> {the (map_of NODE_TYPES ImportFrom_t),
                               the (map_of NODE_TYPES Import_t)} then
              ((if first_import then [''## Imports\<newline>''] else [])
               @ [''* '' @ name1, last_chunk], False)
            else
              ([ty @ '' '' @ [CHR 0x27] @ name1 @ [CHR 0x27] @ ''\<newline>line ''
                @ (if lineno0 = 0 then ''?'' else str_int lineno0)
                @ ''\<newline>\<newline>'', last_chunk],
               first_import)))"

fun render_group :: "string \<Rightarrow> string \<Rightarrow> bool \<Rightarrow> docrec list \<Rightarrow> string list \<times> bool" where
  "render_group ty module first_import [] = ([], first_import)"
| "render_group ty module first_import (tpl # grp) =
     (case render_record ty module first_import tpl of
        (cs, first_import') \<Rightarrow>
          (case render_group ty module first_import' grp of
             (cs', first_import'') \<Rightarrow> (cs @ cs', first_import'')))"

fun render_groups :: "string \<Rightarrow> bool \<Rightarrow> (string \<times> docrec list) list \<Rightarrow> string list" where
  "render_groups module first_import [] = []"
| "render_groups module first_import ((ty, grp) # grouped) =
     (case render_group ty module first_import grp of
        (cs, first_import') \<Rightarrow> cs @ render_groups module first_import' grouped)"

text \<open>
  The source is a string, or a file object with its contents and, if it has one, its
  \<open>name\<close> attribute.
\<close>

datatype source = StrSource string | FileSource "string option" string

definition module_of :: "pylib \<Rightarrow> source \<Rightarrow> string \<Rightarrow> string" where
  "module_of L src module =
     (case src of
        FileSource fname contents \<Rightarrow>
          fst (splitext L (basename L (case fname of None \<Rightarrow> module | Some f \<Rightarrow> f)))
      | StrSource s \<Rightarrow> module)"

definition actual_source :: "source \<Rightarrow> string" where
  "actual_source src = (case src of FileSource fname contents \<Rightarrow> contents | StrSource s \<Rightarrow> s)"

text \<open>
  \<open>iter_docstrings\<close>: \<open>sorted\<close> runs \<open>parse_docstrings\<close> to its end and sorts
  the records by their third component; the sort is stable.
\<close>

definition iter_docstrings :: "docrec event list \<Rightarrow> docrec list" where
  "iter_docstrings evs = sort_key (\<lambda>x. fst (snd (snd x))) (yields evs)"

definition yield_docstrings :: "pylib \<Rightarrow> source \<Rightarrow> string \<Rightarrow> sink option \<Rightarrow> string generator" where
  "yield_docstrings L src module import_file =
     (case parse_docstrings L (actual_source src) import_file of
        (evs, Some e) \<Rightarrow> (map Write (writes evs), Some e)
      | (evs, None) \<Rightarrow>
          (case keyed (iter_docstrings evs) of
             (ks, e) \<Rightarrow>
               (map Write (writes evs)
                @ map Yield (render_groups (module_of L src module) True (groupby ks)), e)))"

section \<open>The older copy of the tool, \<open>doc2md.py\<close>\<close>

text \<open>
  \<open>doc2md.py\<close> holds the same three functions under the same names; here they carry
  the prefix \<open>doc2md_\<close>. Its \<open>get_imports\<close> differs in the bytes that start the
  line written; its \<open>parse_docstrings\<close> moves the line number of every documented
  node back by the number of lines of the string constant, and slices the declaration
  up to the line number; its \<open>yield_docstrings\<close> has no \<open>first_import\<close>.
\<close>

fun doc2md_get_imports :: "node \<Rightarrow> sink option \<Rightarrow> docrec event list" where
  "doc2md_get_imports (ImportFrom m l) file_to_save =
     (let imports = (case m of None \<Rightarrow> ''?'' | Some s \<Rightarrow> if s = [] then ''?'' else s);
          res = (ImportFrom m l, Some imports, 0, [])
      in (if file_to_save \<noteq> None
          then [Write ([CHR 0xC3, CHR 0xA2, CHR 0xE2, CHR 0x80, CHR 0x9D, CHR 0xC5, CHR 0x93]
                       @ imports @ ''\<newline>'')] else [])
         @ [Yield res])"
| "doc2md_get_imports (Import names l) file_to_save =
     (let imports = join '','' names;
          res = (Import names l, Some imports, 0, [])
      in (if file_to_save \<noteq> None
          then [Write ([CHR 0xC3, CHR 0xA2, CHR 0xE2, CHR 0x80, CHR 0x9D, CHR 0xC5, CHR 0x93]
                       @ imports @ ''\<newline>'')] else [])
         @ [Yield res])"
| "doc2md_get_imports node file_to_save = []"

definition doc2md_declare_record :: "pylib \<Rightarrow> string list \<Rightarrow> node \<Rightarrow> error + docrec" where
  "doc2md_declare_record L source_lines node =
     (let docstring = (case get_docstring L node of
                         None \<Rightarrow> ''**UNDOCUMENTED**''
                       | Some d \<Rightarrow> if d = [] then ''**UNDOCUMENTED**'' else d);
          lineno0 = (case lineno node of None \<Rightarrow> 0 | Some l \<Rightarrow> l);
          lineno1 = (case body node of
                       Expr (Str s) l # rest \<Rightarrow> l - int (length (splitlines s))
                     | _ \<Rightarrow> lineno0)
      in if isinstance node FUNCTION_TYPES then
           (case lineno node of
              None \<Rightarrow> Inl AttributeError
            | Some node_lineno \<Rightarrow>
                (let function_declaration =
                       (if node_lineno = lineno1
                        then py_slice source_lines (lineno1 - 1) lineno1
                        else py_slice source_lines (node_lineno - 1) lineno1);
                     function = dedent L (join ''\<newline>'' function_declaration)
                 in Inr (node, name node, lineno1,
                         ''```python\<newline>'' @ function @ ''\<newline>```\<newline>''
                         @ docstring)))
         else Inr (node, name node, lineno1, docstring))"

definition doc2md_parse_node :: "pylib \<Rightarrow> string list \<Rightarrow> sink option \<Rightarrow> node \<Rightarrow> docrec generator" where
  "doc2md_parse_node L source_lines import_file n =
     (if isinstance n DECLARE_TYPES then
        (case doc2md_declare_record L source_lines n of
           Inl e \<Rightarrow> ([], Some e)
         | Inr r \<Rightarrow> (Yield r # doc2md_get_imports n import_file, None))
      else (doc2md_get_imports n import_file, None))"

definition doc2md_parse_docstrings :: "pylib \<Rightarrow> string \<Rightarrow> sink option \<Rightarrow> docrec generator" where
  "doc2md_parse_docstrings L source import_file =
     (case ast_parse L source of
        None \<Rightarrow> ([], Some SyntaxError)
      | Some tree \<Rightarrow>
          for_each (doc2md_parse_node L (splitlines source) import_file) (walk tree))"

definition doc2md_render_record :: "string \<Rightarrow> string \<Rightarrow> docrec \<Rightarrow> string list" where
  "doc2md_render_record ty module tpl =
     (case tpl of (node, name0, lineno0, docstring) \<Rightarrow>
        (let name1 = (case name0 of None \<Rightarrow> module
                      | Some s \<Rightarrow> if s = [] then module else s);
             last_chunk = (if docstring @ ''\<newline>'' = [] then ''\<newline>''
                           else docstring @ ''\<newline>'')
         in if ty = the (map_of NODE_TYPES Module_t) then
              [ty @ '' '' @ [CHR 0x27] @ name1 @ [CHR 0x27] @ ''\<newline>'', last_chunk]
            else if ty \<in> {the (map_of NODE_TYPES ImportFrom_t),
                               the (map_of NODE_TYPES Import_t)} then
              [ty @ '' '' @ [CHR 0x27] @ name1 @ [CHR 0x27], last_chunk]
            else
              [ty @ '' '' @ [CHR 0x27] @ name1 @ [CHR 0x27] @ ''\<newline>line ''
               @ (if lineno0 = 0 then ''?'' else str_int lineno0)
               @ ''\<newline>\<newline>'', last_chunk]))"

fun doc2md_render_groups :: "string \<Rightarrow> (string \<times> docrec list) list \<Rightarrow> string list" where
  "doc2md_render_groups module [] = []"
| "doc2md_render_groups module ((ty, grp) # grouped) =
     concat (map (doc2md_render_record ty module) grp) @ doc2md_render_groups module grouped"

definition doc2md_yield_docstrings :: "pylib \<Rightarrow> source \<Rightarrow> string \<Rightarrow> sink option \<Rightarrow> string generator" where
  "doc2md_yield_docstrings L src module import_file =
     (case doc2md_parse_docstrings L (actual_source src) import_file of
        (evs, Some e) \<Rightarrow> (map Write (writes evs), Some e)
      | (evs, None) \<Rightarrow>
          (case keyed (iter_docstrings evs) of
             (ks, e) \<Rightarrow>
               (map Write (writes evs)
                @ map Yield (doc2md_render_groups (module_of L src module) (groupby ks)), e)))"

section \<open>Notions used to state the properties\<close>

text \<open>The components of a record, and the records of import statements.\<close>

definition rec_lineno :: "docrec \<Rightarrow> int" where
  "rec_lineno tpl = fst (snd (snd tpl))"

definition rec_docstring :: "docrec \<Rightarrow> string" where
  "rec_docstring tpl = snd (snd (snd tpl))"

definition is_import :: "docrec \<Rightarrow> bool" where
  "is_import tpl = (type_of (fst tpl) = ImportFrom_t \<or> type_of (fst tpl) = Import_t)"

definition is_declare :: "docrec \<Rightarrow> bool" where
  "is_declare tpl = (type_of (fst tpl) = Module_t \<or> type_of (fst tpl) = ClassDef_t
                     \<or> type_of (fst tpl) = FunctionDef_t \<or> type_of (fst tpl) = AsyncFunctionDef_t)"

text \<open>The heading text that \<open>_NODE_TYPES\<close> gives the node of a record.\<close>

definition node_key :: "docrec \<Rightarrow> string" where
  "node_key tpl = (case map_of NODE_TYPES (type_of (fst tpl)) of None \<Rightarrow> [] | Some k \<Rightarrow> k)"

text \<open>The name a record is displayed under: its own, or the module name when it has none.\<close>

definition display_name :: "string \<Rightarrow> docrec \<Rightarrow> string" where
  "display_name module tpl =
     (case fst (snd tpl) of None \<Rightarrow> module | Some s \<Rightarrow> if s = [] then module else s)"

text \<open>
  The chunks of one record, the imports heading apart: its heading (for an import, its
  bullet line), then its documentation text and a newline.
\<close>

definition quoted :: "string \<Rightarrow> string" where
  "quoted s = [CHR 0x27] @ s @ [CHR 0x27]"

definition record_chunks :: "string \<Rightarrow> docrec \<Rightarrow> string list" where
  "record_chunks module tpl =
     [if type_of (fst tpl) = Module_t then
        ''# Module '' @ quoted (display_name module tpl) @ ''\<newline>''
      else if is_import tpl then
        ''* '' @ display_name module tpl
      else
        node_key tpl @ '' '' @ quoted (display_name module tpl) @ ''\<newline>line ''
        @ (if rec_lineno tpl = 0 then ''?'' else str_int (rec_lineno tpl))
        @ ''\<newline>\<newline>'',
      rec_docstring tpl @ ''\<newline>'']"

text \<open>
  The loops of \<open>yield_docstrings\<close> over the groups, as one loop over the keyed
  records.
\<close>

fun render_flat :: "string \<Rightarrow> bool \<Rightarrow> (string \<times> docrec) list \<Rightarrow> string list" where
  "render_flat module first_import [] = []"
| "render_flat module first_import ((k, tpl) # ks) =
     (case render_record k module first_import tpl of
        (cs, first_import') \<Rightarrow> cs @ render_flat module first_import' ks)"

text \<open>
  The section order of the specification: module, class, function or async function,
  import.
\<close>

fun category_group :: "node_type \<Rightarrow> nat" where
  "category_group Module_t = 0"
| "category_group ClassDef_t = 1"
| "category_group FunctionDef_t = 2"
| "category_group AsyncFunctionDef_t = 2"
| "category_group ImportFrom_t = 3"
| "category_group Import_t = 3"
| "category_group _ = 4"



text \<open>
  What every record of the extractor is: the record of a module, class or function, or
  the record of an import, with line number 0 and an empty text.
\<close>

definition extracted :: "docrec \<Rightarrow> bool" where
  "extracted r = (is_declare r \<or> (is_import r \<and> rec_lineno r = 0 \<and> rec_docstring r = []))"


text \<open>
  The nodes of a tree: the node itself, then the nodes of the trees of its body. Every
  node of the tree is in the list once.
\<close>

fun nodes :: "node \<Rightarrow> node list" where
  "nodes (Module b) = Module b # concat (map nodes b)"
| "nodes (ClassDef n l b) = ClassDef n l b # concat (map nodes b)"
| "nodes (FunctionDef n l b) = FunctionDef n l b # concat (map nodes b)"
| "nodes (AsyncFunctionDef n l b) = AsyncFunctionDef n l b # concat (map nodes b)"
| "nodes (Other l b) = Other l b # concat (map nodes b)"
| "nodes (ImportFrom m l) = [ImportFrom m l]"
| "nodes (Import ns l) = [Import ns l]"
| "nodes (Expr v l) = [Expr v l]"

text \<open>
  The import statements, and the record the specification gives an import statement:
  the node, its name, the line number 0 and an empty text. The name is the module path
  of a \<open>from\<close> import, \<open>?\<close> when it has none, and the names of a plain import
  joined by commas.
\<close>

definition is_import_node :: "node \<Rightarrow> bool" where
  "is_import_node n = (type_of n = ImportFrom_t \<or> type_of n = Import_t)"

fun import_name :: "node \<Rightarrow> string" where
  "import_name (ImportFrom None l) = ''?''"
| "import_name (ImportFrom (Some m) l) = (if m = [] then ''?'' else m)"
| "import_name (Import names l) = join '','' names"
| "import_name n = []"

definition record_of_import :: "node \<Rightarrow> docrec" where
  "record_of_import n = (n, Some (import_name n), 0, [])"

text \<open>
  The body of the node has a first statement, and that statement has a line number.
  Every function that \<open>ast.parse\<close> returns is such a node.
\<close>

definition has_first_line :: "node \<Rightarrow> bool" where
  "has_first_line n = (case body n of [] \<Rightarrow> False | b # rest \<Rightarrow> lineno b \<noteq> None)"

section \<open>Examples\<close>

text \<open>
  A library for the examples: it parses the one text given to the one tree given and
  rejects every other text. The texts of the examples have no indentation to strip, so
  \<open>cleandoc\<close> and \<open>dedent\<close> return them as they are.
\<close>

definition example_lib :: "string \<Rightarrow> node \<Rightarrow> pylib" where
  "example_lib text tree =
     \<lparr>ast_parse = (\<lambda>s. if s = text then Some tree else None),
      cleandoc = (\<lambda>s. s), dedent = (\<lambda>s. s),
      basename = (\<lambda>s. s), splitext = (\<lambda>s. (s, []))\<rparr>"

text \<open>
  The text \<open>import os\<close>, \<open>class A:\<close>, \<open>pass\<close> (three lines) and its tree.
\<close>

definition src_import_class :: string where
  "src_import_class = ''import os\<newline>class A:\<newline>    pass\<newline>''"

definition tree_import_class :: node where
  "tree_import_class = Module [Import [''os''] 1, ClassDef ''A'' 2 [Other 3 []]]"

text \<open>
  Scenario A of the specification: a module documentation comment in triple double
  quotes on line 1, \<open>import os\<close> on line 2, and the tree of that text.
\<close>

definition src_scenario_a :: string where
  "src_scenario_a =
     [CHR 0x22, CHR 0x22, CHR 0x22] @ ''Module doc'' @ [CHR 0x22, CHR 0x22, CHR 0x22]
     @ ''\<newline>import os\<newline>''"

definition tree_scenario_a :: node where
  "tree_scenario_a = Module [Expr (Str ''Module doc'') 1, Import [''os''] 2]"



definition node_documented_class :: node where
  "node_documented_class = ClassDef ''A'' 1 [Expr (Str ''a\<newline>    b'') 2]"



text \<open>
  A module whose documentation comment is the text \<open>## Imports\<close>, on line 1,
  followed by \<open>import os\<close> on line 2, and its tree.
\<close>

definition src_heading_comment :: string where
  "src_heading_comment =
     [CHR 0x22, CHR 0x22, CHR 0x22] @ ''## Imports'' @ [CHR 0x22, CHR 0x22, CHR 0x22]
     @ ''\<newline>import os\<newline>''"

definition tree_heading_comment :: node where
  "tree_heading_comment = Module [Expr (Str ''## Imports'') 1, Import [''os''] 2]"

text \<open>
  The text \<open>from a.b import c\<close>, \<open>def f():\<close>, \<open>import os, sys\<close> (three
  lines, the last one indented) and its tree: the second import lies in the function.
\<close>

definition src_nested_import :: string where
  "src_nested_import = ''from a.b import c\<newline>def f():\<newline>    import os, sys\<newline>''"

definition tree_nested_import :: node where
  "tree_nested_import =
     Module [ImportFrom (Some ''a.b'') 1, FunctionDef ''f'' 2 [Import [''os'', ''sys''] 3]]"

section \<open>Properties\<close>

subsection \<open>A text that does not parse\<close>

text \<open>
  Claim C5. When \<open>ast.parse\<close> rejects the source text, the extractor raises the parse
  error having yielded no record and written nothing to the import file, and the
  renderer raises it having yielded no chunk. This holds for both copies of the tool.
\<close>

theorem parse_error_no_output:
  assumes "ast_parse L (actual_source src) = None"
  shows "parse_docstrings L (actual_source src) import_file = ([], Some SyntaxError)
       \<and> yield_docstrings L src module import_file = ([], Some SyntaxError)
       \<and> doc2md_parse_docstrings L (actual_source src) import_file = ([], Some SyntaxError)
       \<and> doc2md_yield_docstrings L src module import_file = ([], Some SyntaxError)"
  using assms
  by (simp add: parse_docstrings_def yield_docstrings_def doc2md_parse_docstrings_def
      doc2md_yield_docstrings_def)

theorem parse_error_no_output_witness:
  "ast_parse (example_lib ''x = 1'' (Module [Other 1 []])) (actual_source (StrSource ''def f(:'')) = None
   \<and> parse_docstrings (example_lib ''x = 1'' (Module [Other 1 []]))
        (actual_source (StrSource ''def f(:'')) (Some []) = ([], Some SyntaxError)
   \<and> yield_docstrings (example_lib ''x = 1'' (Module [Other 1 []]))
        (StrSource ''def f(:'') ''m'' (Some []) = ([], Some SyntaxError)"
proof -
  have h: "ast_parse (example_lib ''x = 1'' (Module [Other 1 []]))
             (actual_source (StrSource ''def f(:'')) = None"
    by (simp add: example_lib_def actual_source_def)
  show ?thesis
    using h parse_error_no_output [OF h, of "Some []" "''m''"] by simp
qed

subsection \<open>Sink writes come before chunks\<close>

lemma yields_append: "yields (es @ es') = yields es @ yields es'"
  by (induction es rule: yields.induct) simp_all

lemma writes_append: "writes (es @ es') = writes es @ writes es'"
  by (induction es rule: writes.induct) simp_all

lemma yields_map_Write: "yields (map Write ws) = []"
  by (induction ws) simp_all

lemma yields_map_Yield: "yields (map Yield xs) = xs"
  by (induction xs) simp_all

lemma writes_map_Write: "writes (map Write ws) = ws"
  by (induction ws) simp_all

lemma writes_map_Yield: "writes (map Yield xs) = []"
  by (induction xs) simp_all

text \<open>
  Claim C10. What a run of the renderer does is, in this order, every write of the
  extractor to the import file and then every chunk: \<open>sorted\<close> has run the extractor
  to its end before the first chunk is yielded, so no write follows a chunk. This holds
  for both copies of the tool.
\<close>

theorem writes_before_chunks:
  "fst (yield_docstrings L src module import_file)
     = map Write (writes (fst (parse_docstrings L (actual_source src) import_file)))
       @ map Yield (yields (fst (yield_docstrings L src module import_file)))
   \<and> fst (doc2md_yield_docstrings L src module import_file)
     = map Write (writes (fst (doc2md_parse_docstrings L (actual_source src) import_file)))
       @ map Yield (yields (fst (doc2md_yield_docstrings L src module import_file)))"
  by (simp add: yield_docstrings_def doc2md_yield_docstrings_def yields_append
      yields_map_Write yields_map_Yield split: prod.splits option.splits)

subsection \<open>Nodes without a documentation comment\<close>



subsection \<open>The renderer as one loop over the sorted records\<close>

lemma NODE_TYPES_lookup:
  "map_of NODE_TYPES Module_t = Some ''# Module''"
  "map_of NODE_TYPES ClassDef_t = Some ''\<newline>## Class''"
  "map_of NODE_TYPES FunctionDef_t = Some ''\<newline>### Function''"
  "map_of NODE_TYPES AsyncFunctionDef_t = Some ''\<newline>### Async Function''"
  "map_of NODE_TYPES ImportFrom_t = Some ''\<newline>Imports''"
  "map_of NODE_TYPES Import_t = Some ''\<newline>Imports''"
  "map_of NODE_TYPES Expr_t = None"
  "map_of NODE_TYPES Other_t = None"
  by (simp_all add: NODE_TYPES_def DECLARE_TYPES_def FUNCTION_TYPES_def)

lemma render_record_flag:
  "snd (render_record k m fi tpl) = (fi \<and> k \<noteq> ''\<newline>Imports'')"
  by (cases tpl) (simp add: render_record_def NODE_TYPES_lookup Let_def)

lemma render_flat_append:
  "render_flat m fi (ks @ ks')
     = render_flat m fi ks
       @ render_flat m (fi \<and> (\<forall>kx\<in>set ks. fst kx \<noteq> ''\<newline>Imports'')) ks'"
proof (induction ks arbitrary: fi)
  case Nil
  then show ?case by simp
next
  case (Cons kx ks)
  obtain k tpl where kx: "kx = (k, tpl)" by (cases kx)
  obtain cs fi' where r: "render_record k m fi tpl = (cs, fi')" by (cases "render_record k m fi tpl")
  have fi': "fi' = (fi \<and> k \<noteq> ''\<newline>Imports'')"
    using render_record_flag [of k m fi tpl] r by simp
  show ?case
    using Cons.IH [of fi'] by (auto simp: kx r fi')
qed

lemma render_group_flat:
  "render_group k m fi grp
     = (render_flat m fi (map (Pair k) grp), fi \<and> (grp = [] \<or> k \<noteq> ''\<newline>Imports''))"
proof (induction grp arbitrary: fi)
  case Nil
  then show ?case by simp
next
  case (Cons tpl grp)
  obtain cs fi' where r: "render_record k m fi tpl = (cs, fi')" by (cases "render_record k m fi tpl")
  have fi': "fi' = (fi \<and> k \<noteq> ''\<newline>Imports'')"
    using render_record_flag [of k m fi tpl] r by simp
  show ?case
    using Cons.IH [of fi'] by (auto simp: r fi')
qed

lemma map_Pair_snd_takeWhile:
  "map (Pair k \<circ> snd) (takeWhile (\<lambda>kx. fst kx = k) kxs) = takeWhile (\<lambda>kx. fst kx = k) kxs"
  by (induction kxs) auto

lemma takeWhile_key_flag:
  "(\<forall>kx\<in>set ((k, x) # takeWhile (\<lambda>kx. fst kx = k) kxs). fst kx \<noteq> ''\<newline>Imports'')
     = (k \<noteq> ''\<newline>Imports'')"
  by (auto dest: set_takeWhileD)

lemma render_groups_step:
  assumes "\<And>fi. render_groups m fi (groupby (dropWhile (\<lambda>kx. fst kx = k) kxs))
                  = render_flat m fi (dropWhile (\<lambda>kx. fst kx = k) kxs)"
  shows "render_groups m fi (groupby ((k, x) # kxs))
           = render_flat m fi ((k, x) # takeWhile (\<lambda>kx. fst kx = k) kxs)
             @ render_flat m (fi \<and> k \<noteq> ''\<newline>Imports'') (dropWhile (\<lambda>kx. fst kx = k) kxs)"
  apply (simp only: groupby.simps render_groups.simps render_group_flat prod.case assms)
  apply (simp only: list.map map_map map_Pair_snd_takeWhile)
  apply simp
  done

lemma render_groups_flat:
  "render_groups m fi (groupby ks) = render_flat m fi ks"
proof (induction ks arbitrary: fi rule: groupby.induct)
  case 1
  then show ?case by simp
next
  case (2 k x kxs)
  let ?tw = "takeWhile (\<lambda>kx. fst kx = k) kxs"
  let ?dw = "dropWhile (\<lambda>kx. fst kx = k) kxs"
  have "render_flat m fi (((k, x) # ?tw) @ ?dw)
          = render_flat m fi ((k, x) # ?tw) @ render_flat m (fi \<and> k \<noteq> ''\<newline>Imports'') ?dw"
    by (simp only: render_flat_append takeWhile_key_flag)
  moreover have "((k, x) # ?tw) @ ?dw = (k, x) # kxs"
    by simp
  ultimately show ?case
    using render_groups_step [of m k kxs fi x, OF "2.IH"] by (simp only:)
qed

lemma doc2md_render_groups_flat:
  "doc2md_render_groups m (groupby ks) = concat (map (\<lambda>kx. doc2md_render_record (fst kx) m (snd kx)) ks)"
proof (induction ks rule: groupby.induct)
  case 1
  then show ?case by simp
next
  case (2 k x kxs)
  let ?tw = "takeWhile (\<lambda>kx. fst kx = k) kxs"
  let ?dw = "dropWhile (\<lambda>kx. fst kx = k) kxs"
  have tw: "concat (map (doc2md_render_record k m) (map snd ?tw))
              = concat (map (\<lambda>kx. doc2md_render_record (fst kx) m (snd kx)) ?tw)"
    by (induction kxs) auto
  have "concat (map (\<lambda>kx. doc2md_render_record (fst kx) m (snd kx)) kxs)
          = concat (map (\<lambda>kx. doc2md_render_record (fst kx) m (snd kx)) (?tw @ ?dw))"
    by simp
  then show ?case
    using "2.IH" tw by (simp del: takeWhile_dropWhile_id)
qed

lemma keyed_ok:
  assumes "\<forall>tpl\<in>set tpls. is_declare tpl \<or> is_import tpl"
  shows "keyed tpls = (map (\<lambda>tpl. (node_key tpl, tpl)) tpls, None)"
  using assms
proof (induction tpls)
  case Nil
  then show ?case by simp
next
  case (Cons tpl tpls)
  then have "map_of NODE_TYPES (type_of (fst tpl)) = Some (node_key tpl)"
    by (auto simp: is_declare_def is_import_def node_key_def NODE_TYPES_lookup)
  with Cons show ?case by simp
qed

lemma node_key_Imports:
  assumes "is_declare tpl \<or> is_import tpl"
  shows "(node_key tpl = ''\<newline>Imports'') = is_import tpl"
  using assms
  by (auto simp: node_key_def is_declare_def is_import_def NODE_TYPES_lookup)

lemma render_record_chunks:
  assumes "is_declare tpl \<or> is_import tpl"
  shows "render_record (node_key tpl) m fi tpl
           = ((if is_import tpl \<and> fi then [''## Imports\<newline>''] else []) @ record_chunks m tpl,
              fi \<and> \<not> is_import tpl)"
  using assms
  by (cases tpl)
     (auto simp: render_record_def record_chunks_def node_key_def is_declare_def is_import_def
        NODE_TYPES_lookup display_name_def quoted_def rec_lineno_def rec_docstring_def Let_def)

lemma render_flat_no_heading:
  assumes "\<forall>tpl\<in>set tpls. is_declare tpl \<or> is_import tpl"
      and "\<not> fi \<or> (\<forall>tpl\<in>set tpls. \<not> is_import tpl)"
  shows "render_flat m fi (map (\<lambda>tpl. (node_key tpl, tpl)) tpls) = concat (map (record_chunks m) tpls)"
  using assms
proof (induction tpls arbitrary: fi)
  case Nil
  then show ?case by simp
next
  case (Cons tpl tpls)
  have "render_flat m (fi \<and> \<not> is_import tpl) (map (\<lambda>tpl. (node_key tpl, tpl)) tpls)
          = concat (map (record_chunks m) tpls)"
    using Cons.prems by (intro Cons.IH) auto
  then show ?case
    using Cons.prems by (auto simp: render_record_chunks)
qed

lemma render_flat_heading:
  assumes "\<forall>tpl\<in>set (pre @ imp # post). is_declare tpl \<or> is_import tpl"
      and "\<forall>tpl\<in>set pre. \<not> is_import tpl" and "is_import imp"
  shows "render_flat m True (map (\<lambda>tpl. (node_key tpl, tpl)) (pre @ imp # post))
           = concat (map (record_chunks m) pre) @ ''## Imports\<newline>''
             # concat (map (record_chunks m) (imp # post))"
proof -
  have pre: "render_flat m True (map (\<lambda>tpl. (node_key tpl, tpl)) pre) = concat (map (record_chunks m) pre)"
    using assms by (intro render_flat_no_heading) auto
  have post: "render_flat m False (map (\<lambda>tpl. (node_key tpl, tpl)) post) = concat (map (record_chunks m) post)"
    using assms by (intro render_flat_no_heading) auto
  have "\<forall>tpl\<in>set pre. node_key tpl \<noteq> ''\<newline>Imports''"
    using assms(1,2) node_key_Imports by auto
  then have flag: "(\<forall>kx\<in>set (map (\<lambda>tpl. (node_key tpl, tpl)) pre). fst kx \<noteq> ''\<newline>Imports'')"
    by simp
  show ?thesis
    using assms(1,3) flag by (simp add: render_flat_append pre post render_record_chunks)
qed

subsection \<open>The records of a run\<close>

lemma for_each_yields:
  assumes "\<And>x. \<forall>r\<in>set (yields (fst (f x))). P r"
  shows "\<forall>r\<in>set (yields (fst (for_each f xs))). P r"
proof (induction xs)
  case Nil
  then show ?case by simp
next
  case (Cons x xs)
  obtain es e where fx: "f x = (es, e)" by (cases "f x")
  have es: "\<forall>r\<in>set (yields es). P r"
    using assms [of x] fx by simp
  obtain es' r' where rest: "for_each f xs = (es', r')" by (cases "for_each f xs")
  show ?case
    using es Cons.IH by (cases e) (auto simp: fx rest yields_append)
qed

lemma get_imports_yields:
  "\<forall>r\<in>set (yields (get_imports n f)). is_import r \<and> rec_lineno r = 0 \<and> rec_docstring r = []"
  by (cases n) (auto simp: is_import_def rec_lineno_def rec_docstring_def Let_def)

lemma doc2md_get_imports_yields:
  "\<forall>r\<in>set (yields (doc2md_get_imports n f)). is_import r \<and> rec_lineno r = 0 \<and> rec_docstring r = []"
  by (cases n) (auto simp: is_import_def rec_lineno_def rec_docstring_def Let_def)

lemma declare_record_node:
  "declare_record L sl n = Inr r \<Longrightarrow> fst r = n"
  by (auto simp: declare_record_def Let_def split: if_splits list.splits option.splits)

lemma doc2md_declare_record_node:
  "doc2md_declare_record L sl n = Inr r \<Longrightarrow> fst r = n"
  by (auto simp: doc2md_declare_record_def Let_def split: if_splits list.splits option.splits)

lemma isinstance_declare:
  "isinstance n DECLARE_TYPES \<Longrightarrow> fst r = n \<Longrightarrow> is_declare r"
  by (auto simp: isinstance_def DECLARE_TYPES_def FUNCTION_TYPES_def is_declare_def)

lemma parse_node_yields:
  "\<forall>r\<in>set (yields (fst (parse_node L sl f n))). extracted r"
  using get_imports_yields [of n f]
  by (auto simp: parse_node_def extracted_def split: sum.splits
      dest: declare_record_node isinstance_declare)

lemma doc2md_parse_node_yields:
  "\<forall>r\<in>set (yields (fst (doc2md_parse_node L sl f n))). extracted r"
  using doc2md_get_imports_yields [of n f]
  by (auto simp: doc2md_parse_node_def extracted_def split: sum.splits
      dest: doc2md_declare_record_node isinstance_declare)

lemma parse_docstrings_yields:
  "\<forall>r\<in>set (yields (fst (parse_docstrings L s f))). extracted r"
  using for_each_yields [of "parse_node L (splitlines s) f" extracted, OF parse_node_yields]
  by (simp add: parse_docstrings_def split: option.splits)

lemma doc2md_parse_docstrings_yields:
  "\<forall>r\<in>set (yields (fst (doc2md_parse_docstrings L s f))). extracted r"
  using for_each_yields [of "doc2md_parse_node L (splitlines s) f" extracted, OF doc2md_parse_node_yields]
  by (simp add: doc2md_parse_docstrings_def split: option.splits)

lemma iter_docstrings_set: "set (iter_docstrings evs) = set (yields evs)"
  by (simp add: iter_docstrings_def)

lemma yield_docstrings_flat:
  assumes "parse_docstrings L (actual_source src) f = (evs, None)"
  shows "yield_docstrings L src m f
           = (map Write (writes evs)
              @ map Yield (render_flat (module_of L src m) True
                             (map (\<lambda>tpl. (node_key tpl, tpl)) (iter_docstrings evs))), None)"
proof -
  have "\<forall>r\<in>set (iter_docstrings evs). is_declare r \<or> is_import r"
    using parse_docstrings_yields [of L "actual_source src" f] assms
    by (auto simp: iter_docstrings_set extracted_def)
  then have "keyed (iter_docstrings evs) = (map (\<lambda>tpl. (node_key tpl, tpl)) (iter_docstrings evs), None)"
    by (rule keyed_ok)
  then show ?thesis
    using assms by (simp add: yield_docstrings_def render_groups_flat)
qed

lemma doc2md_yield_docstrings_flat:
  assumes "doc2md_parse_docstrings L (actual_source src) f = (evs, None)"
  shows "doc2md_yield_docstrings L src m f
           = (map Write (writes evs)
              @ map Yield (concat (map (\<lambda>tpl. doc2md_render_record (node_key tpl) (module_of L src m) tpl)
                                     (iter_docstrings evs))), None)"
proof -
  have "\<forall>r\<in>set (iter_docstrings evs). is_declare r \<or> is_import r"
    using doc2md_parse_docstrings_yields [of L "actual_source src" f] assms
    by (auto simp: iter_docstrings_set extracted_def)
  then have "keyed (iter_docstrings evs) = (map (\<lambda>tpl. (node_key tpl, tpl)) (iter_docstrings evs), None)"
    by (rule keyed_ok)
  then show ?thesis
    using assms by (simp add: doc2md_yield_docstrings_def doc2md_render_groups_flat comp_def)
qed

subsection \<open>The order of the rendered records\<close>

lemma str_int_examples:
  "str_int 1 = ''1''" "str_int 2 = ''2''" "str_int 3 = ''3''" "str_int 4 = ''4''"
  by code_simp+

lemma import_class_records:
  "parse_docstrings (example_lib src_import_class tree_import_class) src_import_class None
   = ([Yield (tree_import_class, None, 0, ''**UNDOCUMENTED**''),
       Yield (Import [''os''] 1, Some ''os'', 0, []),
       Yield (ClassDef ''A'' 2 [Other 3 []], Some ''A'', 2, ''**UNDOCUMENTED**'')], None)"
  by (simp add: parse_docstrings_def example_lib_def walk_def parse_node_def isinstance_def
      DECLARE_TYPES_def FUNCTION_TYPES_def declare_record_def Let_def tree_import_class_def)

lemma doc2md_import_class_records:
  "doc2md_parse_docstrings (example_lib src_import_class tree_import_class) src_import_class None
   = ([Yield (tree_import_class, None, 0, ''**UNDOCUMENTED**''),
       Yield (Import [''os''] 1, Some ''os'', 0, []),
       Yield (ClassDef ''A'' 2 [Other 3 []], Some ''A'', 2, ''**UNDOCUMENTED**'')], None)"
  by (simp add: doc2md_parse_docstrings_def example_lib_def walk_def doc2md_parse_node_def
      isinstance_def DECLARE_TYPES_def FUNCTION_TYPES_def doc2md_declare_record_def Let_def
      tree_import_class_def)

lemma tree_import_class_type: "type_of tree_import_class = Module_t"
  by (simp add: tree_import_class_def)

text \<open>
  Claim C1, as stated, fails: with the section order module, class, function, import,
  the record of \<open>import os\<close> would have to come after the record of the class
  \<open>A\<close>. The renderer sorts by line number alone, an import has line number 0, and
  so the import comes first: the chunks are the module, the imports, the class.
\<close>

theorem section_order_counterexample:
  "\<not> sorted (map (\<lambda>tpl. category_group (type_of (fst tpl)))
       (iter_docstrings (fst (parse_docstrings
          (example_lib src_import_class tree_import_class) src_import_class None))))
   \<and> yields (fst (yield_docstrings (example_lib src_import_class tree_import_class)
               (StrSource src_import_class) ''m'' None))
     = [''# Module '' @ quoted ''m'' @ ''\<newline>'', ''**UNDOCUMENTED**\<newline>'',
        ''## Imports\<newline>'', ''* os'', ''\<newline>'',
        ''\<newline>## Class '' @ quoted ''A'' @ ''\<newline>line 2\<newline>\<newline>'',
        ''**UNDOCUMENTED**\<newline>'']"
  by (simp add: yield_docstrings_def actual_source_def module_of_def import_class_records
      iter_docstrings_def NODE_TYPES_lookup render_record_def quoted_def str_int_examples
      yields_map_Yield Let_def tree_import_class_type)

text \<open>
  Claim C1, amended. The records are rendered in the order of their line numbers,
  whatever their category: the sorted list is non-decreasing in the line number, and
  so are the records of each category in it; the records of one line number keep the
  order in which the extractor yielded them. The chunks of a run are the chunks of the
  records of that list, one record after the other. This holds for both copies of the
  tool.
\<close>

theorem rendered_in_line_order:
  "sorted (map rec_lineno (iter_docstrings evs))
   \<and> (\<forall>g. sorted (map rec_lineno
              (filter (\<lambda>tpl. category_group (type_of (fst tpl)) = g) (iter_docstrings evs))))
   \<and> (\<forall>k. filter (\<lambda>tpl. rec_lineno tpl = k) (iter_docstrings evs)
            = filter (\<lambda>tpl. rec_lineno tpl = k) (yields evs))
   \<and> (parse_docstrings L (actual_source src) import_file = (evs, None) \<longrightarrow>
        yields (fst (yield_docstrings L src module import_file))
          = render_flat (module_of L src module) True
              (map (\<lambda>tpl. (node_key tpl, tpl)) (iter_docstrings evs)))
   \<and> (doc2md_parse_docstrings L (actual_source src) import_file = (evs, None) \<longrightarrow>
        yields (fst (doc2md_yield_docstrings L src module import_file))
          = concat (map (\<lambda>tpl. doc2md_render_record (node_key tpl) (module_of L src module) tpl)
              (iter_docstrings evs)))"
proof -
  have f: "rec_lineno = (\<lambda>x. fst (snd (snd x)))"
    by (rule ext) (simp add: rec_lineno_def)
  have "sorted (map rec_lineno (iter_docstrings evs))"
    unfolding iter_docstrings_def f by (rule sorted_sort_key)
  moreover from this have "\<forall>g. sorted (map rec_lineno
              (filter (\<lambda>tpl. category_group (type_of (fst tpl)) = g) (iter_docstrings evs)))"
    by (simp add: sorted_filter)
  moreover have "\<forall>k. filter (\<lambda>tpl. rec_lineno tpl = k) (iter_docstrings evs)
            = filter (\<lambda>tpl. rec_lineno tpl = k) (yields evs)"
    unfolding iter_docstrings_def f by (simp add: sort_key_stable)
  ultimately show ?thesis
    by (simp add: yield_docstrings_flat doc2md_yield_docstrings_flat yields_append
        yields_map_Write yields_map_Yield)
qed

theorem rendered_in_line_order_witness:
  "parse_docstrings (example_lib src_import_class tree_import_class)
     (actual_source (StrSource src_import_class)) None
     = ([Yield (tree_import_class, None, 0, ''**UNDOCUMENTED**''),
         Yield (Import [''os''] 1, Some ''os'', 0, []),
         Yield (ClassDef ''A'' 2 [Other 3 []], Some ''A'', 2, ''**UNDOCUMENTED**'')], None)
   \<and> doc2md_parse_docstrings (example_lib src_import_class tree_import_class)
     (actual_source (StrSource src_import_class)) None
     = ([Yield (tree_import_class, None, 0, ''**UNDOCUMENTED**''),
         Yield (Import [''os''] 1, Some ''os'', 0, []),
         Yield (ClassDef ''A'' 2 [Other 3 []], Some ''A'', 2, ''**UNDOCUMENTED**'')], None)
   \<and> yields (fst (doc2md_yield_docstrings (example_lib src_import_class tree_import_class)
               (StrSource src_import_class) ''m'' None))
     = [''# Module '' @ quoted ''m'' @ ''\<newline>'', ''**UNDOCUMENTED**\<newline>'',
        ''\<newline>Imports '' @ quoted ''os'', ''\<newline>'',
        ''\<newline>## Class '' @ quoted ''A'' @ ''\<newline>line 2\<newline>\<newline>'',
        ''**UNDOCUMENTED**\<newline>'']"
proof -
  have h: "parse_docstrings (example_lib src_import_class tree_import_class)
             (actual_source (StrSource src_import_class)) None
           = ([Yield (tree_import_class, None, 0, ''**UNDOCUMENTED**''),
               Yield (Import [''os''] 1, Some ''os'', 0, []),
               Yield (ClassDef ''A'' 2 [Other 3 []], Some ''A'', 2, ''**UNDOCUMENTED**'')], None)"
    by (simp add: actual_source_def import_class_records)
  have h': "doc2md_parse_docstrings (example_lib src_import_class tree_import_class)
             (actual_source (StrSource src_import_class)) None
           = ([Yield (tree_import_class, None, 0, ''**UNDOCUMENTED**''),
               Yield (Import [''os''] 1, Some ''os'', 0, []),
               Yield (ClassDef ''A'' 2 [Other 3 []], Some ''A'', 2, ''**UNDOCUMENTED**'')], None)"
    by (simp add: actual_source_def doc2md_import_class_records)
  show ?thesis
    using h h' rendered_in_line_order
      [of "[Yield (tree_import_class, None, 0, ''**UNDOCUMENTED**''),
            Yield (Import [''os''] 1, Some ''os'', 0, []),
            Yield (ClassDef ''A'' 2 [Other 3 []], Some ''A'', 2, ''**UNDOCUMENTED**'')]"
          "example_lib src_import_class tree_import_class" "StrSource src_import_class"
          None "''m''"]
    by (simp add: iter_docstrings_def module_of_def node_key_def NODE_TYPES_lookup
        doc2md_render_record_def quoted_def str_int_examples tree_import_class_type Let_def)
qed

subsection \<open>The imports heading\<close>

lemma import_not_declare: "is_import tpl \<Longrightarrow> \<not> is_declare tpl"
  by (auto simp: is_import_def is_declare_def)

lemma doc2md_render_record_chunks:
  assumes "is_declare tpl \<or> is_import tpl"
  shows "doc2md_render_record (node_key tpl) m tpl
           = (if is_import tpl
              then [''\<newline>Imports '' @ quoted (display_name m tpl), rec_docstring tpl @ ''\<newline>'']
              else record_chunks m tpl)"
  using assms
  by (cases tpl)
     (auto simp: doc2md_render_record_def record_chunks_def node_key_def is_declare_def
        is_import_def NODE_TYPES_lookup display_name_def quoted_def rec_lineno_def
        rec_docstring_def Let_def)

lemma heading_before_first_import:
  assumes "parse_docstrings L (actual_source src) import_file = (evs, None)"
      and "iter_docstrings evs = pre @ imp # post"
      and "is_import imp" and "\<forall>tpl\<in>set pre. \<not> is_import tpl"
  shows "yields (fst (yield_docstrings L src module import_file))
           = concat (map (record_chunks (module_of L src module)) pre)
             @ [''## Imports\<newline>'', ''* '' @ display_name (module_of L src module) imp, ''\<newline>'']
             @ concat (map (record_chunks (module_of L src module)) post)"
proof -
  have ex: "\<forall>r\<in>set (iter_docstrings evs). extracted r"
    using parse_docstrings_yields [of L "actual_source src" import_file] assms(1)
    by (simp add: iter_docstrings_set)
  then have all: "\<forall>tpl\<in>set (pre @ imp # post). is_declare tpl \<or> is_import tpl"
    unfolding assms(2) by (auto simp: extracted_def)
  have "extracted imp"
    using ex unfolding assms(2) by simp
  then have doc: "rec_docstring imp = []"
    using assms(3) import_not_declare by (auto simp: extracted_def)
  have imp: "record_chunks (module_of L src module) imp
               = [''* '' @ display_name (module_of L src module) imp, ''\<newline>'']"
    using assms(3) doc by (auto simp: record_chunks_def is_import_def)
  have "yields (fst (yield_docstrings L src module import_file))
          = render_flat (module_of L src module) True
              (map (\<lambda>tpl. (node_key tpl, tpl)) (pre @ imp # post))"
    using assms(1,2)
    by (simp add: yield_docstrings_flat yields_append yields_map_Write yields_map_Yield)
  also have "\<dots> = concat (map (record_chunks (module_of L src module)) pre) @ ''## Imports\<newline>''
             # concat (map (record_chunks (module_of L src module)) (imp # post))"
    using all assms(4,3) by (rule render_flat_heading)
  finally show ?thesis
    by (simp add: imp)
qed

lemma doc2md_no_heading:
  assumes "doc2md_parse_docstrings L (actual_source src) import_file = (evs, None)"
  shows "yields (fst (doc2md_yield_docstrings L src module import_file))
           = concat (map (\<lambda>tpl. if is_import tpl
                                  then [''\<newline>Imports '' @ quoted (display_name (module_of L src module) tpl),
                                        ''\<newline>'']
                                  else record_chunks (module_of L src module) tpl)
                         (iter_docstrings evs))"
proof -
  have ex: "\<forall>r\<in>set (iter_docstrings evs). extracted r"
    using doc2md_parse_docstrings_yields [of L "actual_source src" import_file] assms(1)
    by (simp add: iter_docstrings_set)
  have "map (\<lambda>tpl. doc2md_render_record (node_key tpl) (module_of L src module) tpl) (iter_docstrings evs)
      = map (\<lambda>tpl. if is_import tpl
                                  then [''\<newline>Imports '' @ quoted (display_name (module_of L src module) tpl),
                                        ''\<newline>'']
                                  else record_chunks (module_of L src module) tpl) (iter_docstrings evs)"
  proof (rule map_cong [OF refl])
    fix tpl assume "tpl \<in> set (iter_docstrings evs)"
    then have e: "extracted tpl" using ex by simp
    then have d: "is_declare tpl \<or> is_import tpl" by (auto simp: extracted_def)
    have "is_import tpl \<Longrightarrow> rec_docstring tpl = []"
      using e import_not_declare by (auto simp: extracted_def)
    then show "doc2md_render_record (node_key tpl) (module_of L src module) tpl
       = (if is_import tpl
                                  then [''\<newline>Imports '' @ quoted (display_name (module_of L src module) tpl),
                                        ''\<newline>'']
                                  else record_chunks (module_of L src module) tpl)"
      by (simp add: doc2md_render_record_chunks [OF d])
  qed
  moreover have "yields (fst (doc2md_yield_docstrings L src module import_file))
      = concat (map (\<lambda>tpl. doc2md_render_record (node_key tpl) (module_of L src module) tpl)
                  (iter_docstrings evs))"
    using assms
    by (simp add: doc2md_yield_docstrings_flat yields_append yields_map_Write yields_map_Yield)
  ultimately show ?thesis
    by (simp only:)
qed

lemma text_chunk_heading:
  "(d @ ''\<newline>'' = ''## Imports\<newline>'') = (d = ''## Imports'')"
proof -
  have "''## Imports\<newline>'' = ''## Imports'' @ ''\<newline>''"
    by simp
  then show ?thesis
    by (simp only: append1_eq_conv simp_thms)
qed

lemma first_chunk_no_heading:
  "hd (record_chunks m tpl) \<noteq> ''## Imports\<newline>''"
  by (cases "type_of (fst tpl)")
     (simp_all add: record_chunks_def node_key_def NODE_TYPES_lookup is_import_def quoted_def)

lemma record_chunks_count:
  "count_list (record_chunks m tpl) ''## Imports\<newline>''
     = (if rec_docstring tpl = ''## Imports'' then 1 else 0)"
proof -
  obtain h where h: "record_chunks m tpl = [h, rec_docstring tpl @ ''\<newline>'']"
    by (simp add: record_chunks_def)
  have "h \<noteq> ''## Imports\<newline>''"
    using first_chunk_no_heading [of m tpl] h by simp
  then show ?thesis
    by (simp only: h count_list.simps text_chunk_heading) simp
qed

lemma concat_record_chunks_count:
  "count_list (concat (map (record_chunks m) tpls)) ''## Imports\<newline>''
     = length (filter (\<lambda>tpl. rec_docstring tpl = ''## Imports'') tpls)"
  by (induction tpls) (simp_all add: record_chunks_count)

lemma doc2md_chunks_count:
  assumes "\<forall>tpl\<in>set tpls. is_import tpl \<longrightarrow> rec_docstring tpl = []"
  shows "count_list (concat (map (\<lambda>tpl. if is_import tpl
                                  then [''\<newline>Imports '' @ quoted (display_name m tpl), ''\<newline>'']
                                  else record_chunks m tpl) tpls)) ''## Imports\<newline>''
     = length (filter (\<lambda>tpl. rec_docstring tpl = ''## Imports'') tpls)"
  using assms by (induction tpls) (auto simp: record_chunks_count)

lemma heading_comment_records:
  "parse_docstrings (example_lib src_heading_comment tree_heading_comment) src_heading_comment None
   = ([Yield (tree_heading_comment, None, 0, ''## Imports''),
       Yield (Import [''os''] 2, Some ''os'', 0, [])], None)"
  by (simp add: parse_docstrings_def example_lib_def walk_def parse_node_def isinstance_def
      DECLARE_TYPES_def FUNCTION_TYPES_def declare_record_def Let_def tree_heading_comment_def)

lemma tree_heading_comment_type: "type_of tree_heading_comment = Module_t"
  by (simp add: tree_heading_comment_def)

text \<open>
  Claim C2, as stated, fails for \<open>doc2md.py\<close>: its renderer has no imports heading.
  For the text \<open>import os\<close>, \<open>class A:\<close>, \<open>pass\<close> the extractor yields
  the record of the import, and no chunk is \<open>## Imports\<close>; the import is rendered
  under the heading \<open>Imports 'os'\<close>.
\<close>

theorem imports_heading_counterexample:
  "(Import [''os''] 1, Some ''os'', 0, [])
     \<in> set (yields (fst (doc2md_parse_docstrings (example_lib src_import_class tree_import_class)
                            src_import_class None)))
   \<and> is_import (Import [''os''] 1, Some ''os'', 0, [])
   \<and> ''## Imports\<newline>''
     \<notin> set (yields (fst (doc2md_yield_docstrings (example_lib src_import_class tree_import_class)
                            (StrSource src_import_class) ''m'' None)))"
  by (simp add: doc2md_yield_docstrings_def actual_source_def module_of_def
      doc2md_import_class_records iter_docstrings_def NODE_TYPES_lookup doc2md_render_record_def
      quoted_def str_int_examples yields_map_Yield Let_def tree_import_class_type is_import_def)

text \<open>
  Claim C2, amended. In \<open>docs2md/docs2md.py\<close>, when the sorted records are \<open>pre\<close>,
  then the first import record \<open>imp\<close>, then \<open>post\<close>, the chunks are the chunks of
  the records of \<open>pre\<close>, then the heading \<open>## Imports\<close>, then the bullet line of
  \<open>imp\<close> and its empty text, then the chunks of the records of \<open>post\<close>: the
  statement that yields the heading runs once, right before the bullet line of the first
  import. A chunk of a record (\<open>record_chunks\<close>) is the text of the heading only when
  it is the documentation text of the record and that text is \<open>## Imports\<close>; so the
  number of chunks \<open>## Imports\<close> is one more than the number of records with that
  text, and it is one when there is no such record. In \<open>doc2md.py\<close> no statement
  yields the heading: every import record is rendered as \<open>Imports '<name>'\<close> and an
  empty text, and the chunks \<open>## Imports\<close> are as many as the records with that text.
\<close>

theorem imports_heading_once:
  assumes "parse_docstrings L (actual_source src) import_file = (evs, None)"
      and "iter_docstrings evs = pre @ imp # post"
      and "is_import imp" and "\<forall>tpl\<in>set pre. \<not> is_import tpl"
  shows "yields (fst (yield_docstrings L src module import_file))
           = concat (map (record_chunks (module_of L src module)) pre)
             @ [''## Imports\<newline>'', ''* '' @ display_name (module_of L src module) imp, ''\<newline>'']
             @ concat (map (record_chunks (module_of L src module)) post)
       \<and> count_list (yields (fst (yield_docstrings L src module import_file))) ''## Imports\<newline>''
           = 1 + length (filter (\<lambda>tpl. rec_docstring tpl = ''## Imports'') (pre @ post))
       \<and> (doc2md_parse_docstrings L (actual_source src) import_file = (evs', None) \<longrightarrow>
            yields (fst (doc2md_yield_docstrings L src module import_file))
              = concat (map (\<lambda>tpl. if is_import tpl
                                     then [''\<newline>Imports ''
                                             @ quoted (display_name (module_of L src module) tpl),
                                           ''\<newline>'']
                                     else record_chunks (module_of L src module) tpl)
                            (iter_docstrings evs'))
          \<and> count_list (yields (fst (doc2md_yield_docstrings L src module import_file)))
                ''## Imports\<newline>''
              = length (filter (\<lambda>tpl. rec_docstring tpl = ''## Imports'') (iter_docstrings evs')))"
proof (intro conjI impI)
  show c: "yields (fst (yield_docstrings L src module import_file))
           = concat (map (record_chunks (module_of L src module)) pre)
             @ [''## Imports\<newline>'', ''* '' @ display_name (module_of L src module) imp, ''\<newline>'']
             @ concat (map (record_chunks (module_of L src module)) post)"
    using assms by (rule heading_before_first_import)
  show "count_list (yields (fst (yield_docstrings L src module import_file))) ''## Imports\<newline>''
           = 1 + length (filter (\<lambda>tpl. rec_docstring tpl = ''## Imports'') (pre @ post))"
    by (simp add: c concat_record_chunks_count)
next
  assume d: "doc2md_parse_docstrings L (actual_source src) import_file = (evs', None)"
  show c: "yields (fst (doc2md_yield_docstrings L src module import_file))
              = concat (map (\<lambda>tpl. if is_import tpl
                                     then [''\<newline>Imports ''
                                             @ quoted (display_name (module_of L src module) tpl),
                                           ''\<newline>'']
                                     else record_chunks (module_of L src module) tpl)
                            (iter_docstrings evs'))"
    using d by (rule doc2md_no_heading)
  have "\<forall>r\<in>set (iter_docstrings evs'). extracted r"
    using doc2md_parse_docstrings_yields [of L "actual_source src" import_file] d
    by (simp add: iter_docstrings_set)
  then have "\<forall>tpl\<in>set (iter_docstrings evs'). is_import tpl \<longrightarrow> rec_docstring tpl = []"
    using import_not_declare by (auto simp: extracted_def)
  then show "count_list (yields (fst (doc2md_yield_docstrings L src module import_file)))
                ''## Imports\<newline>''
              = length (filter (\<lambda>tpl. rec_docstring tpl = ''## Imports'') (iter_docstrings evs'))"
    unfolding c by (rule doc2md_chunks_count)
qed

theorem imports_heading_once_witness:
  "parse_docstrings (example_lib src_import_class tree_import_class)
     (actual_source (StrSource src_import_class)) None
     = ([Yield (tree_import_class, None, 0, ''**UNDOCUMENTED**''),
         Yield (Import [''os''] 1, Some ''os'', 0, []),
         Yield (ClassDef ''A'' 2 [Other 3 []], Some ''A'', 2, ''**UNDOCUMENTED**'')], None)
   \<and> is_import (Import [''os''] 1, Some ''os'', 0, [])
   \<and> \<not> is_import (tree_import_class, None, 0, ''**UNDOCUMENTED**'')
   \<and> yields (fst (yield_docstrings (example_lib src_import_class tree_import_class)
               (StrSource src_import_class) ''m'' None))
     = [''# Module '' @ quoted ''m'' @ ''\<newline>'', ''**UNDOCUMENTED**\<newline>'',
        ''## Imports\<newline>'', ''* os'', ''\<newline>'',
        ''\<newline>## Class '' @ quoted ''A'' @ ''\<newline>line 2\<newline>\<newline>'',
        ''**UNDOCUMENTED**\<newline>'']
   \<and> count_list (yields (fst (yield_docstrings (example_lib src_import_class tree_import_class)
               (StrSource src_import_class) ''m'' None))) ''## Imports\<newline>'' = 1
   \<and> doc2md_parse_docstrings (example_lib src_import_class tree_import_class)
     (actual_source (StrSource src_import_class)) None
     = ([Yield (tree_import_class, None, 0, ''**UNDOCUMENTED**''),
         Yield (Import [''os''] 1, Some ''os'', 0, []),
         Yield (ClassDef ''A'' 2 [Other 3 []], Some ''A'', 2, ''**UNDOCUMENTED**'')], None)
   \<and> yields (fst (doc2md_yield_docstrings (example_lib src_import_class tree_import_class)
               (StrSource src_import_class) ''m'' None))
     = [''# Module '' @ quoted ''m'' @ ''\<newline>'', ''**UNDOCUMENTED**\<newline>'',
        ''\<newline>Imports '' @ quoted ''os'', ''\<newline>'',
        ''\<newline>## Class '' @ quoted ''A'' @ ''\<newline>line 2\<newline>\<newline>'',
        ''**UNDOCUMENTED**\<newline>'']
   \<and> count_list (yields (fst (doc2md_yield_docstrings (example_lib src_import_class tree_import_class)
               (StrSource src_import_class) ''m'' None))) ''## Imports\<newline>'' = 0
   \<and> yields (fst (yield_docstrings (example_lib src_heading_comment tree_heading_comment)
               (StrSource src_heading_comment) ''m'' None))
     = [''# Module '' @ quoted ''m'' @ ''\<newline>'', ''## Imports\<newline>'',
        ''## Imports\<newline>'', ''* os'', ''\<newline>'']
   \<and> count_list (yields (fst (yield_docstrings (example_lib src_heading_comment tree_heading_comment)
               (StrSource src_heading_comment) ''m'' None))) ''## Imports\<newline>'' = 2"
proof -
  let ?m = "(tree_import_class, None, 0, ''**UNDOCUMENTED**'') :: docrec"
  let ?i = "(Import [''os''] 1, Some ''os'', 0, []) :: docrec"
  let ?c = "(ClassDef ''A'' 2 [Other 3 []], Some ''A'', 2, ''**UNDOCUMENTED**'') :: docrec"
  let ?hm = "(tree_heading_comment, None, 0, ''## Imports'') :: docrec"
  let ?hi = "(Import [''os''] 2, Some ''os'', 0, []) :: docrec"
  have h1: "parse_docstrings (example_lib src_import_class tree_import_class)
              (actual_source (StrSource src_import_class)) None
            = ([Yield ?m, Yield ?i, Yield ?c], None)"
    by (simp add: actual_source_def import_class_records)
  have h2: "iter_docstrings [Yield ?m, Yield ?i, Yield ?c] = [?m] @ ?i # [?c]"
    by (simp add: iter_docstrings_def)
  have h3: "is_import ?i"
    by (simp add: is_import_def)
  have h4: "\<forall>tpl\<in>set [?m]. \<not> is_import tpl"
    by (simp add: is_import_def tree_import_class_type)
  have h5: "doc2md_parse_docstrings (example_lib src_import_class tree_import_class)
              (actual_source (StrSource src_import_class)) None
            = ([Yield ?m, Yield ?i, Yield ?c], None)"
    by (simp add: actual_source_def doc2md_import_class_records)
  have k1: "parse_docstrings (example_lib src_heading_comment tree_heading_comment)
              (actual_source (StrSource src_heading_comment)) None
            = ([Yield ?hm, Yield ?hi], None)"
    by (simp add: actual_source_def heading_comment_records)
  have k2: "iter_docstrings [Yield ?hm, Yield ?hi] = [?hm] @ ?hi # []"
    by (simp add: iter_docstrings_def)
  have k3: "is_import ?hi"
    by (simp add: is_import_def)
  have k4: "\<forall>tpl\<in>set [?hm]. \<not> is_import tpl"
    by (simp add: is_import_def tree_heading_comment_type)
  have a: "yields (fst (yield_docstrings (example_lib src_import_class tree_import_class)
               (StrSource src_import_class) ''m'' None))
     = [''# Module '' @ quoted ''m'' @ ''\<newline>'', ''**UNDOCUMENTED**\<newline>'',
        ''## Imports\<newline>'', ''* os'', ''\<newline>'',
        ''\<newline>## Class '' @ quoted ''A'' @ ''\<newline>line 2\<newline>\<newline>'',
        ''**UNDOCUMENTED**\<newline>'']
   \<and> count_list (yields (fst (yield_docstrings (example_lib src_import_class tree_import_class)
               (StrSource src_import_class) ''m'' None))) ''## Imports\<newline>'' = 1
   \<and> yields (fst (doc2md_yield_docstrings (example_lib src_import_class tree_import_class)
               (StrSource src_import_class) ''m'' None))
     = [''# Module '' @ quoted ''m'' @ ''\<newline>'', ''**UNDOCUMENTED**\<newline>'',
        ''\<newline>Imports '' @ quoted ''os'', ''\<newline>'',
        ''\<newline>## Class '' @ quoted ''A'' @ ''\<newline>line 2\<newline>\<newline>'',
        ''**UNDOCUMENTED**\<newline>'']
   \<and> count_list (yields (fst (doc2md_yield_docstrings (example_lib src_import_class tree_import_class)
               (StrSource src_import_class) ''m'' None))) ''## Imports\<newline>'' = 0"
    using h5 imports_heading_once [OF h1 h2 h3 h4, of "''m''" "[Yield ?m, Yield ?i, Yield ?c]"]
    by (simp add: module_of_def record_chunks_def display_name_def node_key_def
        NODE_TYPES_lookup quoted_def str_int_examples tree_import_class_type is_import_def
        rec_lineno_def rec_docstring_def iter_docstrings_def)
  have b: "yields (fst (yield_docstrings (example_lib src_heading_comment tree_heading_comment)
               (StrSource src_heading_comment) ''m'' None))
     = [''# Module '' @ quoted ''m'' @ ''\<newline>'', ''## Imports\<newline>'',
        ''## Imports\<newline>'', ''* os'', ''\<newline>'']
   \<and> count_list (yields (fst (yield_docstrings (example_lib src_heading_comment tree_heading_comment)
               (StrSource src_heading_comment) ''m'' None))) ''## Imports\<newline>'' = 2"
    using imports_heading_once [OF k1 k2 k3 k4, of "''m''"]
    by (simp add: module_of_def record_chunks_def display_name_def
        quoted_def tree_heading_comment_type is_import_def rec_docstring_def)
  show ?thesis
    using h1 h3 h4 h5 a b by simp
qed

subsection \<open>The placeholder for a line number of zero\<close>

text \<open>
  Claim C9, as stated, fails for the record of a module: it is not an import, its line
  number is 0, and its heading holds no line number and no placeholder. For the empty
  source text the only record is that of the module, and the heading rendered is
  \<open># Module 'm'\<close>.
\<close>

theorem line_placeholder_counterexample:
  "iter_docstrings (fst (parse_docstrings (example_lib [] (Module [])) [] None))
     = [(Module [], None, 0, ''**UNDOCUMENTED**'')]
   \<and> \<not> is_import (Module [], None, 0, ''**UNDOCUMENTED**'')
   \<and> yields (fst (yield_docstrings (example_lib [] (Module [])) (StrSource []) ''m'' None))
     = [''# Module '' @ quoted ''m'' @ ''\<newline>'', ''**UNDOCUMENTED**\<newline>'']
   \<and> CHR ''?'' \<notin> set (''# Module '' @ quoted ''m'' @ ''\<newline>'')"
  by (simp add: yield_docstrings_def actual_source_def module_of_def parse_docstrings_def
      example_lib_def walk_def parse_node_def isinstance_def DECLARE_TYPES_def
      FUNCTION_TYPES_def declare_record_def splitlines_def iter_docstrings_def
      NODE_TYPES_lookup render_record_def quoted_def is_import_def Let_def)

text \<open>
  Claim C9, amended. For the record of a class, a function or an async function whose
  line number is 0, the heading ends with \<open>line ?\<close>: the placeholder stands where
  the number would, and the text \<open>0\<close> is not written. The heading of a module record
  \<open>mtpl\<close> is \<open># Module '<name>'\<close> and a newline, whatever the line number of
  the record: it holds no line number and no placeholder. This holds for both copies of
  the tool.
\<close>

theorem line_placeholder:
  assumes "type_of (fst tpl) = ClassDef_t \<or> type_of (fst tpl) = FunctionDef_t
           \<or> type_of (fst tpl) = AsyncFunctionDef_t"
      and "rec_lineno tpl = 0"
  shows "render_record (node_key tpl) m first_import tpl
           = ([node_key tpl @ '' '' @ quoted (display_name m tpl) @ ''\<newline>line ?\<newline>\<newline>'',
               rec_docstring tpl @ ''\<newline>''], first_import)
       \<and> doc2md_render_record (node_key tpl) m tpl
           = [node_key tpl @ '' '' @ quoted (display_name m tpl) @ ''\<newline>line ?\<newline>\<newline>'',
              rec_docstring tpl @ ''\<newline>'']
       \<and> (type_of (fst mtpl) = Module_t \<longrightarrow>
            render_record (node_key mtpl) m first_import mtpl
              = ([''# Module '' @ quoted (display_name m mtpl) @ ''\<newline>'',
                  rec_docstring mtpl @ ''\<newline>''], first_import)
          \<and> doc2md_render_record (node_key mtpl) m mtpl
              = [''# Module '' @ quoted (display_name m mtpl) @ ''\<newline>'',
                 rec_docstring mtpl @ ''\<newline>''])"
proof -
  have "render_record (node_key tpl) m first_import tpl
           = ([node_key tpl @ '' '' @ quoted (display_name m tpl) @ ''\<newline>line ?\<newline>\<newline>'',
               rec_docstring tpl @ ''\<newline>''], first_import)
       \<and> doc2md_render_record (node_key tpl) m tpl
           = [node_key tpl @ '' '' @ quoted (display_name m tpl) @ ''\<newline>line ?\<newline>\<newline>'',
              rec_docstring tpl @ ''\<newline>'']"
    using assms
    by (cases tpl)
       (auto simp: render_record_def doc2md_render_record_def node_key_def NODE_TYPES_lookup
          display_name_def quoted_def rec_lineno_def rec_docstring_def Let_def)
  moreover have "type_of (fst mtpl) = Module_t \<longrightarrow>
            render_record (node_key mtpl) m first_import mtpl
              = ([''# Module '' @ quoted (display_name m mtpl) @ ''\<newline>'',
                  rec_docstring mtpl @ ''\<newline>''], first_import)
          \<and> doc2md_render_record (node_key mtpl) m mtpl
              = [''# Module '' @ quoted (display_name m mtpl) @ ''\<newline>'',
                 rec_docstring mtpl @ ''\<newline>'']"
    by (cases mtpl)
       (auto simp: render_record_def doc2md_render_record_def node_key_def NODE_TYPES_lookup
          display_name_def quoted_def rec_lineno_def rec_docstring_def Let_def)
  ultimately show ?thesis
    by blast
qed

theorem line_placeholder_witness:
  "type_of (fst (ClassDef ''A'' 0 [], Some ''A'', 0 :: int, ''doc'')) = ClassDef_t
   \<and> rec_lineno (ClassDef ''A'' 0 [], Some ''A'', 0, ''doc'') = 0
   \<and> render_record ''\<newline>## Class'' ''m'' True (ClassDef ''A'' 0 [], Some ''A'', 0, ''doc'')
       = ([''\<newline>## Class '' @ quoted ''A'' @ ''\<newline>line ?\<newline>\<newline>'', ''doc\<newline>''], True)
   \<and> doc2md_render_record ''\<newline>## Class'' ''m'' (ClassDef ''A'' 0 [], Some ''A'', 0, ''doc'')
       = [''\<newline>## Class '' @ quoted ''A'' @ ''\<newline>line ?\<newline>\<newline>'', ''doc\<newline>'']
   \<and> type_of (fst (Module [], None :: string option, 2 :: int, ''doc'')) = Module_t
   \<and> render_record ''# Module'' ''m'' True (Module [], None, 2, ''doc'')
       = ([''# Module '' @ quoted ''m'' @ ''\<newline>'', ''doc\<newline>''], True)
   \<and> doc2md_render_record ''# Module'' ''m'' (Module [], None, 2, ''doc'')
       = [''# Module '' @ quoted ''m'' @ ''\<newline>'', ''doc\<newline>'']"
proof -
  have h1: "type_of (fst (ClassDef ''A'' 0 [], Some ''A'', 0 :: int, ''doc'')) = ClassDef_t
            \<or> type_of (fst (ClassDef ''A'' 0 [], Some ''A'', 0 :: int, ''doc'')) = FunctionDef_t
            \<or> type_of (fst (ClassDef ''A'' 0 [], Some ''A'', 0 :: int, ''doc'')) = AsyncFunctionDef_t"
    by simp
  have h2: "rec_lineno (ClassDef ''A'' 0 [], Some ''A'', 0, ''doc'') = 0"
    by (simp add: rec_lineno_def)
  show ?thesis
    using h2 line_placeholder [OF h1 h2, of "''m''" True "(Module [], None, 2, ''doc'')"]
    by (simp add: node_key_def NODE_TYPES_lookup display_name_def rec_docstring_def)
qed

subsection \<open>Scenario A\<close>

lemma scenario_a_records:
  assumes "ast_parse L src_scenario_a = Some tree_scenario_a"
      and "cleandoc L ''Module doc'' = ''Module doc''"
  shows "parse_docstrings L src_scenario_a import_file
         = ([Yield (tree_scenario_a, None, 0, ''Module doc'')]
            @ (if import_file \<noteq> None then [Write ([CHR 0xE2, CHR 0x94, CHR 0x9C] @ ''os\<newline>'')] else [])
            @ [Yield (Import [''os''] 2, Some ''os'', 0, [])], None)"
  using assms
  by (simp add: parse_docstrings_def walk_def parse_node_def isinstance_def
      DECLARE_TYPES_def FUNCTION_TYPES_def declare_record_def Let_def tree_scenario_a_def)

lemma tree_scenario_a_type: "type_of tree_scenario_a = Module_t"
  by (simp add: tree_scenario_a_def)

text \<open>
  Claim C8, as stated, fails: the module heading ends with one newline, not two, and
  the bullet line of the import is followed by one newline, not two. The chunks joined
  are \<open># Module 'fallback'\<close>, \<open>Module doc\<close>, \<open>## Imports\<close>, \<open>* os\<close>, each
  followed by one newline, and this text does not begin with the text of the claim.
\<close>

theorem scenario_a_counterexample:
  "concat (yields (fst (yield_docstrings (example_lib src_scenario_a tree_scenario_a)
                             (StrSource src_scenario_a) ''fallback'' None)))
     = ''# Module '' @ quoted ''fallback'' @ ''\<newline>Module doc\<newline>## Imports\<newline>* os\<newline>''
   \<and> take (length (''# Module '' @ quoted ''fallback'' @ ''\<newline>\<newline>Module doc\<newline>''))
     (concat (yields (fst (yield_docstrings (example_lib src_scenario_a tree_scenario_a)
                             (StrSource src_scenario_a) ''fallback'' None))))
   \<noteq> ''# Module '' @ quoted ''fallback'' @ ''\<newline>\<newline>Module doc\<newline>''"
proof -
  have h1: "ast_parse (example_lib src_scenario_a tree_scenario_a) src_scenario_a = Some tree_scenario_a"
    by (simp add: example_lib_def)
  have h2: "cleandoc (example_lib src_scenario_a tree_scenario_a) ''Module doc'' = ''Module doc''"
    by (simp add: example_lib_def)
  show ?thesis
    by (simp add: yield_docstrings_def actual_source_def module_of_def
      scenario_a_records [OF h1 h2] iter_docstrings_def yields_append yields_map_Yield
      yields_map_Write NODE_TYPES_lookup render_record_def quoted_def tree_scenario_a_type Let_def)
qed

text \<open>
  Claim C8, amended. For the source text of scenario A, its tree, and a \<open>cleandoc\<close>
  that leaves \<open>Module doc\<close> as it is, the chunks are the five below, and joined they
  are the text above. A module record without a name is rendered under the fallback
  name.
\<close>

theorem scenario_a_chunks:
  assumes "ast_parse L src_scenario_a = Some tree_scenario_a"
      and "cleandoc L ''Module doc'' = ''Module doc''"
  shows "yields (fst (yield_docstrings L (StrSource src_scenario_a) ''fallback'' import_file))
           = [''# Module '' @ quoted ''fallback'' @ ''\<newline>'', ''Module doc\<newline>'',
              ''## Imports\<newline>'', ''* os'', ''\<newline>'']
       \<and> concat (yields (fst (yield_docstrings L (StrSource src_scenario_a) ''fallback'' import_file)))
           = ''# Module '' @ quoted ''fallback'' @ ''\<newline>Module doc\<newline>## Imports\<newline>* os\<newline>''
       \<and> render_record ''# Module'' module first_import (node, None, ln, doc)
           = ([''# Module '' @ quoted module @ ''\<newline>'', doc @ ''\<newline>''], first_import)"
  by (simp add: yield_docstrings_def actual_source_def module_of_def
      scenario_a_records [OF assms] iter_docstrings_def yields_append yields_map_Yield
      yields_map_Write NODE_TYPES_lookup render_record_def quoted_def tree_scenario_a_type Let_def)

theorem scenario_a_chunks_witness:
  "ast_parse (example_lib src_scenario_a tree_scenario_a) src_scenario_a = Some tree_scenario_a
   \<and> cleandoc (example_lib src_scenario_a tree_scenario_a) ''Module doc'' = ''Module doc''
   \<and> yields (fst (yield_docstrings (example_lib src_scenario_a tree_scenario_a)
                    (StrSource src_scenario_a) ''fallback'' (Some [])))
           = [''# Module '' @ quoted ''fallback'' @ ''\<newline>'', ''Module doc\<newline>'',
              ''## Imports\<newline>'', ''* os'', ''\<newline>'']"
proof -
  have h1: "ast_parse (example_lib src_scenario_a tree_scenario_a) src_scenario_a = Some tree_scenario_a"
    by (simp add: example_lib_def)
  have h2: "cleandoc (example_lib src_scenario_a tree_scenario_a) ''Module doc'' = ''Module doc''"
    by (simp add: example_lib_def)
  show ?thesis
    using h1 h2 scenario_a_chunks [OF h1 h2, of "Some []"] by simp
qed

subsection \<open>The declaration in the text of a function record\<close>






subsection \<open>The line number of a documented node\<close>

text \<open>
  Claim C3. The code does not do what the claim and the documentation of
  \<open>parse_docstrings\<close> say. For a class on line 1 whose documentation comment takes the
  lines 2 and 3, the comment begins on line 2. \<open>docs2md/docs2md.py\<close> gives the record
  the line of the class, 1: it moves the line number for functions only.
  \<open>doc2md.py\<close> gives it the line 0, the line of the comment less its two lines; where
  the parser reports the line on which the comment ends, 3, as Python did before 3.8,
  \<open>doc2md.py\<close> gives it the line 1.
\<close>

theorem documented_class_anchor:
  "lineno (Expr (Str ''a\<newline>    b'') 2) = Some 2
   \<and> (\<exists>text. declare_record L sl node_documented_class
               = Inr (node_documented_class, Some ''A'', 1, text))
   \<and> (\<exists>text. doc2md_declare_record L sl node_documented_class
               = Inr (node_documented_class, Some ''A'', 0, text))
   \<and> (\<exists>text. doc2md_declare_record L sl (ClassDef ''A'' 1 [Expr (Str ''a\<newline>    b'') 3])
               = Inr (ClassDef ''A'' 1 [Expr (Str ''a\<newline>    b'') 3], Some ''A'', 1, text))"
  by (simp add: declare_record_def doc2md_declare_record_def isinstance_def FUNCTION_TYPES_def
      node_documented_class_def splitlines_def linebreak_def Let_def)

subsection \<open>Import statements\<close>

lemma nodes_body: "nodes n = n # concat (map nodes (body n))"
  by (cases n) simp_all

lemma mset_walk_todo: "mset (walk_todo todo) = mset (concat (map nodes todo))"
proof (induction todo rule: walk_todo.induct)
  case 1
  then show ?case by simp
next
  case (2 n todo)
  have "mset (nodes n) = {#n#} + mset (concat (map nodes (body n)))"
    by (subst nodes_body) simp
  with 2 show ?case by simp
qed

lemma mset_walk: "mset (walk tree) = mset (nodes tree)"
proof -
  have "mset (nodes tree) = {#tree#} + mset (concat (map nodes (body tree)))"
    by (subst nodes_body) simp
  then show ?thesis
    by (simp add: walk_def mset_walk_todo)
qed

lemma for_each_None:
  "\<forall>x\<in>set xs. snd (f x) = None \<Longrightarrow> for_each f xs = (concat (map (\<lambda>x. fst (f x)) xs), None)"
proof (induction xs)
  case Nil
  then show ?case by simp
next
  case (Cons x xs)
  obtain es where fx: "f x = (es, None)"
    using Cons.prems by (cases "f x") auto
  show ?case
    using Cons by (simp add: fx)
qed

lemma for_each_all_None:
  "snd (for_each f xs) = None \<Longrightarrow> \<forall>x\<in>set xs. snd (f x) = None"
proof (induction xs)
  case Nil
  then show ?case by simp
next
  case (Cons x xs)
  obtain es e where fx: "f x = (es, e)" by (cases "f x")
  obtain es' r' where rest: "for_each f xs = (es', r')" by (cases "for_each f xs")
  show ?case
    using Cons by (cases e) (auto simp: fx rest)
qed

lemma yields_concat: "yields (concat ess) = concat (map yields ess)"
  by (induction ess) (simp_all add: yields_append)

lemma get_imports_records:
  "yields (get_imports n f) = (if is_import_node n then [record_of_import n] else [])"
  "yields (doc2md_get_imports n f) = (if is_import_node n then [record_of_import n] else [])"
  by (cases n rule: import_name.cases; simp add: is_import_node_def record_of_import_def Let_def)+

lemma declare_not_import_node: "isinstance n DECLARE_TYPES \<Longrightarrow> \<not> is_import_node n"
  by (auto simp: isinstance_def DECLARE_TYPES_def FUNCTION_TYPES_def is_import_node_def)

lemma is_import_record_of_import: "is_import (record_of_import n) = is_import_node n"
  by (simp add: is_import_def record_of_import_def is_import_node_def)

lemma parse_node_imports:
  "snd (parse_node L sl f n) = None \<Longrightarrow>
     filter is_import (yields (fst (parse_node L sl f n)))
       = (if is_import_node n then [record_of_import n] else [])"
  by (auto simp: parse_node_def get_imports_records is_import_record_of_import
      declare_not_import_node split: sum.splits
      dest!: declare_record_node isinstance_declare import_not_declare)

lemma doc2md_parse_node_imports:
  "snd (doc2md_parse_node L sl f n) = None \<Longrightarrow>
     filter is_import (yields (fst (doc2md_parse_node L sl f n)))
       = (if is_import_node n then [record_of_import n] else [])"
  by (auto simp: doc2md_parse_node_def get_imports_records is_import_record_of_import
      declare_not_import_node split: sum.splits
      dest!: doc2md_declare_record_node isinstance_declare import_not_declare)

lemma doc2md_declare_record_Inr: "\<exists>r. doc2md_declare_record L sl n = Inr r"
  by (cases n) (simp_all add: doc2md_declare_record_def isinstance_def FUNCTION_TYPES_def Let_def)

lemma doc2md_parse_node_None: "snd (doc2md_parse_node L sl f n) = None"
  using doc2md_declare_record_Inr [of L sl n]
  by (auto simp: doc2md_parse_node_def split: sum.splits)

lemma declare_record_Inr:
  "isinstance n FUNCTION_TYPES \<longrightarrow> has_first_line n \<Longrightarrow> \<exists>r. declare_record L sl n = Inr r"
  by (cases n) (auto simp: declare_record_def isinstance_def FUNCTION_TYPES_def Let_def
      has_first_line_def split: list.splits)

lemma parse_node_None:
  "isinstance n FUNCTION_TYPES \<longrightarrow> has_first_line n \<Longrightarrow> snd (parse_node L sl f n) = None"
  using declare_record_Inr [of n L sl]
  by (auto simp: parse_node_def split: sum.splits)

lemma filter_concat_map:
  assumes "\<forall>x\<in>set xs. filter P (g x) = (if Q x then [h x] else [])"
  shows "filter P (concat (map g xs)) = map h (filter Q xs)"
  using assms by (induction xs) auto

lemma run_imports:
  assumes "\<forall>n\<in>set ns. snd (f n) = None"
      and "\<And>n. snd (f n) = None \<Longrightarrow>
             filter is_import (yields (fst (f n))) = (if is_import_node n then [record_of_import n] else [])"
  shows "filter is_import (yields (fst (for_each f ns))) = map record_of_import (filter is_import_node ns)"
proof -
  have "filter is_import (concat (map (\<lambda>n. yields (fst (f n))) ns))
          = map record_of_import (filter is_import_node ns)"
    using assms by (intro filter_concat_map) auto
  then show ?thesis
    using assms(1) by (simp add: for_each_None yields_concat comp_def)
qed

text \<open>
  Claim C6. Let the source text parse to \<open>tree\<close>. The loop of the extractor takes
  every node of the tree once (\<open>walk\<close>), wherever it lies. The import records of the
  run are, in the order of the walk, one record for every import statement of the tree:
  the node, its name, the line number 0 and an empty text (\<open>record_of_import\<close>).
  \<open>doc2md.py\<close> never raises once the text has parsed. \<open>docs2md/docs2md.py\<close> does
  not raise when every function of the tree has a first statement with a line number,
  as every parsed function has, and the import records of a run that does not raise are
  those above. For one import statement the body of the loop yields exactly one record;
  its name is the module path of a \<open>from\<close> import, \<open>?\<close> when there is none, and
  the names of a plain import joined by commas; with an import file, the one line
  written comes before the record.
\<close>

theorem import_record:
  assumes "ast_parse L source = Some tree"
  shows "mset (walk tree) = mset (nodes tree)
       \<and> snd (doc2md_parse_docstrings L source import_file) = None
       \<and> filter is_import (yields (fst (doc2md_parse_docstrings L source import_file)))
           = map record_of_import (filter is_import_node (walk tree))
       \<and> ((\<forall>n\<in>set (walk tree). isinstance n FUNCTION_TYPES \<longrightarrow> has_first_line n) \<longrightarrow>
            snd (parse_docstrings L source import_file) = None)
       \<and> (snd (parse_docstrings L source import_file) = None \<longrightarrow>
            filter is_import (yields (fst (parse_docstrings L source import_file)))
              = map record_of_import (filter is_import_node (walk tree)))
       \<and> parse_node L source_lines import_file (ImportFrom None l)
           = ((if import_file \<noteq> None then [Write ([CHR 0xE2, CHR 0x94, CHR 0x9C] @ ''?\<newline>'')] else [])
              @ [Yield (ImportFrom None l, Some ''?'', 0, [])], None)
       \<and> parse_node L source_lines import_file (ImportFrom (Some m) l)
           = ((if import_file \<noteq> None
               then [Write ([CHR 0xE2, CHR 0x94, CHR 0x9C] @ (if m = [] then ''?'' else m) @ ''\<newline>'')] else [])
              @ [Yield (ImportFrom (Some m) l, Some (if m = [] then ''?'' else m), 0, [])], None)
       \<and> parse_node L source_lines import_file (Import names l)
           = ((if import_file \<noteq> None
               then [Write ([CHR 0xE2, CHR 0x94, CHR 0x9C] @ join '','' names @ ''\<newline>'')] else [])
              @ [Yield (Import names l, Some (join '','' names), 0, [])], None)
       \<and> yields (fst (doc2md_parse_node L source_lines import_file (ImportFrom None l)))
           = [(ImportFrom None l, Some ''?'', 0, [])]
       \<and> yields (fst (doc2md_parse_node L source_lines import_file (ImportFrom (Some m) l)))
           = [(ImportFrom (Some m) l, Some (if m = [] then ''?'' else m), 0, [])]
       \<and> yields (fst (doc2md_parse_node L source_lines import_file (Import names l)))
           = [(Import names l, Some (join '','' names), 0, [])]"
proof -
  let ?f = "parse_node L (splitlines source) import_file"
  let ?g = "doc2md_parse_node L (splitlines source) import_file"
  have d: "\<forall>n\<in>set (walk tree). snd (?g n) = None"
    by (simp add: doc2md_parse_node_None)
  have d1: "snd (doc2md_parse_docstrings L source import_file) = None"
    using assms d by (simp add: doc2md_parse_docstrings_def for_each_None)
  have d2: "filter is_import (yields (fst (doc2md_parse_docstrings L source import_file)))
           = map record_of_import (filter is_import_node (walk tree))"
    using assms run_imports [of "walk tree" ?g, OF d doc2md_parse_node_imports]
    by (simp add: doc2md_parse_docstrings_def)
  have p1: "snd (parse_docstrings L source import_file) = None"
    if "\<forall>n\<in>set (walk tree). isinstance n FUNCTION_TYPES \<longrightarrow> has_first_line n"
  proof -
    have "\<forall>n\<in>set (walk tree). snd (?f n) = None"
      using that by (auto intro: parse_node_None)
    then show ?thesis
      using assms by (simp add: parse_docstrings_def for_each_None)
  qed
  have p2: "filter is_import (yields (fst (parse_docstrings L source import_file)))
              = map record_of_import (filter is_import_node (walk tree))"
    if "snd (parse_docstrings L source import_file) = None"
  proof -
    have "snd (for_each ?f (walk tree)) = None"
      using that assms by (simp add: parse_docstrings_def)
    then have "\<forall>n\<in>set (walk tree). snd (?f n) = None"
      by (rule for_each_all_None)
    then show ?thesis
      using assms run_imports [of "walk tree" ?f, OF _ parse_node_imports]
      by (simp add: parse_docstrings_def)
  qed
  have n: "parse_node L source_lines import_file (ImportFrom None l)
           = ((if import_file \<noteq> None then [Write ([CHR 0xE2, CHR 0x94, CHR 0x9C] @ ''?\<newline>'')] else [])
              @ [Yield (ImportFrom None l, Some ''?'', 0, [])], None)
       \<and> parse_node L source_lines import_file (ImportFrom (Some m) l)
           = ((if import_file \<noteq> None
               then [Write ([CHR 0xE2, CHR 0x94, CHR 0x9C] @ (if m = [] then ''?'' else m) @ ''\<newline>'')] else [])
              @ [Yield (ImportFrom (Some m) l, Some (if m = [] then ''?'' else m), 0, [])], None)
       \<and> parse_node L source_lines import_file (Import names l)
           = ((if import_file \<noteq> None
               then [Write ([CHR 0xE2, CHR 0x94, CHR 0x9C] @ join '','' names @ ''\<newline>'')] else [])
              @ [Yield (Import names l, Some (join '','' names), 0, [])], None)
       \<and> yields (fst (doc2md_parse_node L source_lines import_file (ImportFrom None l)))
           = [(ImportFrom None l, Some ''?'', 0, [])]
       \<and> yields (fst (doc2md_parse_node L source_lines import_file (ImportFrom (Some m) l)))
           = [(ImportFrom (Some m) l, Some (if m = [] then ''?'' else m), 0, [])]
       \<and> yields (fst (doc2md_parse_node L source_lines import_file (Import names l)))
           = [(Import names l, Some (join '','' names), 0, [])]"
    by (simp add: parse_node_def doc2md_parse_node_def isinstance_def DECLARE_TYPES_def
        FUNCTION_TYPES_def Let_def)
  show ?thesis
    using mset_walk [of tree] d1 d2 p1 p2 n by blast
qed

theorem import_record_witness:
  "ast_parse (example_lib src_nested_import tree_nested_import) src_nested_import
     = Some tree_nested_import
   \<and> walk tree_nested_import
     = [tree_nested_import, ImportFrom (Some ''a.b'') 1,
        FunctionDef ''f'' 2 [Import [''os'', ''sys''] 3], Import [''os'', ''sys''] 3]
   \<and> snd (parse_docstrings (example_lib src_nested_import tree_nested_import)
            src_nested_import None) = None
   \<and> filter is_import (yields (fst (parse_docstrings
        (example_lib src_nested_import tree_nested_import) src_nested_import None)))
     = [(ImportFrom (Some ''a.b'') 1, Some ''a.b'', 0, []),
        (Import [''os'', ''sys''] 3, Some ''os,sys'', 0, [])]
   \<and> filter is_import (yields (fst (doc2md_parse_docstrings
        (example_lib src_nested_import tree_nested_import) src_nested_import None)))
     = [(ImportFrom (Some ''a.b'') 1, Some ''a.b'', 0, []),
        (Import [''os'', ''sys''] 3, Some ''os,sys'', 0, [])]"
proof -
  have h: "ast_parse (example_lib src_nested_import tree_nested_import) src_nested_import
             = Some tree_nested_import"
    by (simp add: example_lib_def)
  have w: "walk tree_nested_import
     = [tree_nested_import, ImportFrom (Some ''a.b'') 1,
        FunctionDef ''f'' 2 [Import [''os'', ''sys''] 3], Import [''os'', ''sys''] 3]"
    by (simp add: walk_def tree_nested_import_def)
  have t: "type_of tree_nested_import = Module_t"
    by (simp add: tree_nested_import_def)
  show ?thesis
    using h w import_record [OF h, of None]
    by (simp add: t is_import_node_def record_of_import_def isinstance_def FUNCTION_TYPES_def
        has_first_line_def)
qed

end
